theory Spec2Isabelle
  imports Complex_Main
begin

section \<open>Python and numpy values\<close>

text \<open>
  The exceptions the modelled code can raise.  \<open>KeyError\<close> is what a pandas label lookup
  raises on a missing label, \<open>ValueError\<close> what numpy raises for a reduction over an empty
  array, \<open>IndexError\<close> and \<open>TypeError\<close> are Python's own.  \<open>RuntimeError\<close> is what
  \<open>scipy.optimize.curve_fit\<close> raises when it does not converge.  \<open>UndefinedIndexError\<close> is
  the signal of the selectivity index (see \<open>osi\<close> below).  \<open>MissingDataError\<close> is a name of
  the specification's error taxonomy; nothing in the sources defines or raises it.
\<close>

datatype error = KeyError | ValueError | IndexError | TypeError | RuntimeError
  | UndefinedIndexError | MissingDataError

text \<open>
  A numpy \<open>float64\<close>: a finite value, an infinity, or NaN.  Finite values are idealised
  as reals (no rounding, no overflow) and zero carries no sign.  The operations follow
  IEEE 754 on the special values, and numpy's default error state, where a division by
  zero or an invalid operation warns and returns an infinity or NaN and never raises.
\<close>

datatype npfloat = Fin real | PInf | NInf | NaN

fun np_add :: "npfloat \<Rightarrow> npfloat \<Rightarrow> npfloat" where
  "np_add NaN y = NaN"
| "np_add x NaN = NaN"
| "np_add (Fin a) (Fin b) = Fin (a + b)"
| "np_add PInf NInf = NaN"
| "np_add NInf PInf = NaN"
| "np_add PInf y = PInf"
| "np_add NInf y = NInf"
| "np_add (Fin a) PInf = PInf"
| "np_add (Fin a) NInf = NInf"

fun np_neg :: "npfloat \<Rightarrow> npfloat" where
  "np_neg (Fin a) = Fin (- a)"
| "np_neg PInf = NInf"
| "np_neg NInf = PInf"
| "np_neg NaN = NaN"

definition np_sub :: "npfloat \<Rightarrow> npfloat \<Rightarrow> npfloat" where
  "np_sub x y = np_add x (np_neg y)"

text \<open>The sign of a non-NaN value: \<open>-1\<close>, \<open>0\<close> or \<open>1\<close>.\<close>

fun np_sign :: "npfloat \<Rightarrow> int" where
  "np_sign (Fin a) = (if a < 0 then - 1 else if a = 0 then 0 else 1)"
| "np_sign PInf = 1"
| "np_sign NInf = - 1"
| "np_sign NaN = 0"

definition signed_inf :: "int \<Rightarrow> npfloat" where
  "signed_inf s = (if s < 0 then NInf else PInf)"

fun np_mul :: "npfloat \<Rightarrow> npfloat \<Rightarrow> npfloat" where
  "np_mul NaN y = NaN"
| "np_mul x NaN = NaN"
| "np_mul (Fin a) (Fin b) = Fin (a * b)"
| "np_mul x y =
     (if np_sign x = 0 \<or> np_sign y = 0 then NaN else signed_inf (np_sign x * np_sign y))"

text \<open>
  Division.  A finite non-zero value over zero is an infinity of the dividend's sign
  (the divisor's zero is taken as positive), zero over zero is NaN.
\<close>

fun np_div :: "npfloat \<Rightarrow> npfloat \<Rightarrow> npfloat" where
  "np_div NaN y = NaN"
| "np_div x NaN = NaN"
| "np_div (Fin a) (Fin b) =
     (if b \<noteq> 0 then Fin (a / b) else if a = 0 then NaN else signed_inf (np_sign (Fin a)))"
| "np_div (Fin a) y = Fin 0"
| "np_div x (Fin b) = signed_inf (np_sign x * (if b < 0 then - 1 else 1))"
| "np_div x y = NaN"

fun np_sqrt :: "npfloat \<Rightarrow> npfloat" where
  "np_sqrt (Fin a) = (if a < 0 then NaN else Fin (sqrt a))"
| "np_sqrt PInf = PInf"
| "np_sqrt NInf = NaN"
| "np_sqrt NaN = NaN"

text \<open>\<open>x ** 2\<close>\<close>

definition np_square :: "npfloat \<Rightarrow> npfloat" where
  "np_square x = np_mul x x"

text \<open>\<open>np.sum\<close>: the sum of an empty array is \<open>0.0\<close>.\<close>

definition np_sum :: "npfloat list \<Rightarrow> npfloat" where
  "np_sum xs = foldl np_add (Fin 0) xs"

text \<open>
  \<open>arr.mean()\<close>.  The mean of an empty array is NaN (with a warning).  On a non-empty
  array numpy and pandas add the values and divide in float64, rounding at every step,
  so the result is in general not the exact mean: three values \<open>0.1\<close> average to
  \<open>0.10000000000000002\<close>, seven values \<open>0.7\<close> to \<open>0.7000000000000001\<close>.  The
  mean of a non-empty array is therefore a parameter of the model, as the library
  routine it is: a function from the array to the float64 it returns.
\<close>

type_synonym float_mean = "real list \<Rightarrow> npfloat"

definition np_mean :: "float_mean \<Rightarrow> real list \<Rightarrow> npfloat" where
  "np_mean mean xs = (if xs = [] then NaN else mean xs)"

text \<open>\<open>np.amax\<close>, \<open>np.amin\<close>, \<open>np.ptp\<close>: each raises \<open>ValueError\<close> on an empty array.\<close>

definition np_amax :: "real list \<Rightarrow> error + real" where
  "np_amax xs = (if xs = [] then Inl ValueError else Inr (Max (set xs)))"

definition np_amin :: "real list \<Rightarrow> error + real" where
  "np_amin xs = (if xs = [] then Inl ValueError else Inr (Min (set xs)))"

definition np_ptp :: "real list \<Rightarrow> error + real" where
  "np_ptp xs = (if xs = [] then Inl ValueError else Inr (Max (set xs) - Min (set xs)))"

text \<open>
  \<open>arr.argmax()\<close> and \<open>arr.argmin()\<close>: the index of the first occurrence of the greatest
  (least) entry; \<open>ValueError\<close> on an empty array.
\<close>

definition np_argmax :: "real list \<Rightarrow> error + nat" where
  "np_argmax xs =
     (if xs = [] then Inl ValueError
      else Inr (length (takeWhile (\<lambda>y. y \<noteq> Max (set xs)) xs)))"

definition np_argmin :: "real list \<Rightarrow> error + nat" where
  "np_argmin xs =
     (if xs = [] then Inl ValueError
      else Inr (length (takeWhile (\<lambda>y. y \<noteq> Min (set xs)) xs)))"

text \<open>
  \<open>np.arange(start, stop, step)\<close> for a positive step: \<open>ceil((stop - start) / step)\<close>
  samples \<open>start + i * step\<close>.
\<close>

definition arange :: "real \<Rightarrow> real \<Rightarrow> real \<Rightarrow> real list" where
  "arange start stop step =
     map (\<lambda>i. start + real i * step) [0..<nat \<lceil>(stop - start) / step\<rceil>]"

text \<open>Python's \<open>xs[i]\<close>: a negative index counts from the end, out of range raises.\<close>

definition py_index :: "'a list \<Rightarrow> int \<Rightarrow> error + 'a" where
  "py_index xs i =
     (if 0 \<le> i \<and> i < int (length xs) then Inr (xs ! nat i)
      else if i < 0 \<and> - int (length xs) \<le> i then Inr (xs ! nat (int (length xs) + i))
      else Inl IndexError)"

section \<open>The stimulus table and the analysis object\<close>

text \<open>
  A cell of the stimulus condition table holds the string \<open>'null'\<close> or a number.  The
  table is a data frame indexed by condition id, with the columns \<open>Ori\<close>, \<open>SF\<close> and
  \<open>Phase\<close>; the statistics table is a data frame indexed by (unit id, condition id)
  whose column \<open>spike_mean\<close> is kept here.  Index labels are taken to be unique.  Both
  tables are supplied by the parent class, which is outside the sources.
\<close>

datatype cell = Null | Val real

record stimulus_condition =
  Ori :: cell
  SF :: cell
  Phase :: cell

type_synonym condition_table = "(nat \<times> stimulus_condition) list"

type_synonym statistics_table = "((nat \<times> nat) \<times> real) list"

text \<open>
  The object state that \<open>StaticGratings\<close> adds: the six cached attributes \<open>_orivals\<close>,
  \<open>_number_ori\<close>, \<open>_sfvals\<close>, \<open>_number_sf\<close>, \<open>_phasevals\<close> and \<open>_number_phase\<close>,
  where \<open>None\<close> is Python's \<open>None\<close>.
\<close>

record static_gratings =
  stimulus_conditions :: condition_table
  conditionwise_statistics :: statistics_table
  priv_orivals :: "real list option"
  priv_number_ori :: "nat option"
  priv_sfvals :: "real list option"
  priv_number_sf :: "nat option"
  priv_phasevals :: "real list option"
  priv_number_phase :: "nat option"

text \<open>The constructor leaves every cached attribute \<open>None\<close>.\<close>

definition StaticGratings :: "condition_table \<Rightarrow> statistics_table \<Rightarrow> static_gratings" where
  "StaticGratings tbl stats =
     \<lparr>stimulus_conditions = tbl, conditionwise_statistics = stats,
      priv_orivals = None, priv_number_ori = None,
      priv_sfvals = None, priv_number_sf = None,
      priv_phasevals = None, priv_number_phase = None\<rparr>"

subsection \<open>Dimension discovery\<close>

text \<open>
  \<open>np.sort(conditions.loc[conditions[col] != 'null'][col].unique())\<close>: the distinct
  non-null values of a column, ascending.
\<close>

fun non_null :: "cell list \<Rightarrow> real list" where
  "non_null [] = []"
| "non_null (Null # cs) = non_null cs"
| "non_null (Val v # cs) = v # non_null cs"

definition axis_values :: "(stimulus_condition \<Rightarrow> cell) \<Rightarrow> condition_table \<Rightarrow> real list" where
  "axis_values col tbl = sort (remdups (non_null (map (\<lambda>(cid, c). col c) tbl)))"

text \<open>
  \<open>_get_stim_table_stats\<close>, assignment by assignment.  The sixth assignment of the source
  writes \<open>_number_sf\<close> (from \<open>_sfvals\<close>) a second time; nothing writes \<open>_number_phase\<close>.
\<close>

definition get_stim_table_stats :: "static_gratings \<Rightarrow> static_gratings" where
  "get_stim_table_stats self =
     (let s1 = self\<lparr>priv_orivals := Some (axis_values Ori (stimulus_conditions self))\<rparr>;
          s2 = s1\<lparr>priv_number_ori := map_option length (priv_orivals s1)\<rparr>;
          s3 = s2\<lparr>priv_sfvals := Some (axis_values SF (stimulus_conditions s2))\<rparr>;
          s4 = s3\<lparr>priv_number_sf := map_option length (priv_sfvals s3)\<rparr>;
          s5 = s4\<lparr>priv_phasevals := Some (axis_values Phase (stimulus_conditions s4))\<rparr>;
          s6 = s5\<lparr>priv_number_sf := map_option length (priv_sfvals s5)\<rparr>
      in s6)"

text \<open>
  The six properties: each runs \<open>_get_stim_table_stats\<close> when its own attribute is \<open>None\<close>
  and then returns the attribute.  A property returns its value and the object.
\<close>

definition orivals :: "static_gratings \<Rightarrow> real list option \<times> static_gratings" where
  "orivals self =
     (let self' = (if priv_orivals self = None then get_stim_table_stats self else self)
      in (priv_orivals self', self'))"

definition number_ori :: "static_gratings \<Rightarrow> nat option \<times> static_gratings" where
  "number_ori self =
     (let self' = (if priv_number_ori self = None then get_stim_table_stats self else self)
      in (priv_number_ori self', self'))"

definition sfvals :: "static_gratings \<Rightarrow> real list option \<times> static_gratings" where
  "sfvals self =
     (let self' = (if priv_sfvals self = None then get_stim_table_stats self else self)
      in (priv_sfvals self', self'))"

definition number_sf :: "static_gratings \<Rightarrow> nat option \<times> static_gratings" where
  "number_sf self =
     (let self' = (if priv_number_sf self = None then get_stim_table_stats self else self)
      in (priv_number_sf self', self'))"

definition phasevals :: "static_gratings \<Rightarrow> real list option \<times> static_gratings" where
  "phasevals self =
     (let self' = (if priv_phasevals self = None then get_stim_table_stats self else self)
      in (priv_phasevals self', self'))"

definition number_phase :: "static_gratings \<Rightarrow> nat option \<times> static_gratings" where
  "number_phase self =
     (let self' = (if priv_number_phase self = None then get_stim_table_stats self else self)
      in (priv_number_phase self', self'))"

subsection \<open>Preferred-value search\<close>

text \<open>
  \<open>[conditions.index[conditions[col] == v].tolist() for v in axis]\<close>: for each axis
  value the ids of the conditions that carry it.
\<close>

definition similar_conditions ::
  "(stimulus_condition \<Rightarrow> cell) \<Rightarrow> condition_table \<Rightarrow> real list \<Rightarrow> nat list list" where
  "similar_conditions col tbl axis =
     map (\<lambda>v. map fst (filter (\<lambda>(cid, c). col c = Val v) tbl)) axis"

text \<open>
  \<open>statistics.loc[unit_id]\<close>: the rows of one unit, indexed by condition id;
  \<open>KeyError\<close> when the unit has none.
\<close>

definition loc_unit :: "statistics_table \<Rightarrow> nat \<Rightarrow> error + (nat \<times> real) list" where
  "loc_unit stats unit_id =
     (let rows = map (\<lambda>((u, cid), m). (cid, m)) (filter (\<lambda>((u, cid), m). u = unit_id) stats)
      in if rows = [] then Inl KeyError else Inr rows)"

text \<open>
  \<open>rows.loc[condition_inds]\<close> with a list of labels: the rows in the order asked for;
  \<open>KeyError\<close> when a label is missing.
\<close>

fun loc_conditions :: "(nat \<times> real) list \<Rightarrow> nat list \<Rightarrow> error + (nat \<times> real) list" where
  "loc_conditions rows [] = Inr []"
| "loc_conditions rows (cid # cids) =
     (case map_of rows cid of
        None \<Rightarrow> Inl KeyError
      | Some m \<Rightarrow>
         (case loc_conditions rows cids of
            Inl e \<Rightarrow> Inl e
          | Inr df \<Rightarrow> Inr ((cid, m) # df)))"

text \<open>\<open>statistics.loc[unit_id].loc[condition_inds]['spike_mean'].mean()\<close>\<close>

definition spike_mean_mean ::
  "float_mean \<Rightarrow> statistics_table \<Rightarrow> nat \<Rightarrow> nat list \<Rightarrow> error + npfloat" where
  "spike_mean_mean mean stats unit_id condition_inds =
     (case loc_unit stats unit_id of
        Inl e \<Rightarrow> Inl e
      | Inr rows \<Rightarrow>
         (case loc_conditions rows condition_inds of
            Inl e \<Rightarrow> Inl e
          | Inr df \<Rightarrow> Inr (np_mean mean (map snd df))))"

text \<open>A list comprehension whose element expression can raise: it stops at the first raise.\<close>

fun comprehension :: "('a \<Rightarrow> error + 'b) \<Rightarrow> 'a list \<Rightarrow> error + 'b list" where
  "comprehension f [] = Inr []"
| "comprehension f (x # xs) =
     (case f x of
        Inl e \<Rightarrow> Inl e
      | Inr y \<Rightarrow>
         (case comprehension f xs of
            Inl e \<Rightarrow> Inl e
          | Inr ys \<Rightarrow> Inr (y # ys)))"

text \<open>The IEEE comparison \<open>x < y\<close>: false whenever an operand is NaN.\<close>

fun np_less :: "npfloat \<Rightarrow> npfloat \<Rightarrow> bool" where
  "np_less NaN y = False"
| "np_less x NaN = False"
| "np_less (Fin a) (Fin b) = (a < b)"
| "np_less PInf y = False"
| "np_less x PInf = True"
| "np_less x NInf = False"
| "np_less NInf y = True"

text \<open>
  The position \<open>idxmax\<close> picks in a column: NaN entries are skipped, and of several
  greatest entries the first wins.  \<open>None\<close> when every entry is NaN.
\<close>

fun nanargmax :: "npfloat list \<Rightarrow> nat option" where
  "nanargmax [] = None"
| "nanargmax (x # xs) =
     (case nanargmax xs of
        None \<Rightarrow> (if x = NaN then None else Some 0)
      | Some j \<Rightarrow> (if x = NaN \<or> np_less x (xs ! j) then Some (Suc j) else Some 0))"

text \<open>
  \<open>pd.DataFrame(index=axis, data={'spike_mean': means}).idxmax().iloc[0]\<close>: the label of
  the greatest mean; \<open>ValueError\<close> on an empty frame, NaN when every mean is NaN.
\<close>

definition idxmax :: "real list \<Rightarrow> npfloat list \<Rightarrow> error + npfloat" where
  "idxmax axis means =
     (if means = [] then Inl ValueError
      else case nanargmax means of
             None \<Rightarrow> Inr NaN
           | Some k \<Rightarrow> Inr (Fin (axis ! k)))"

text \<open>
  The body shared by \<open>_get_pref_sf\<close>, \<open>_get_pref_ori\<close> and \<open>_get_pref_phase\<close>, which
  differ in the column and the axis property only.
\<close>

definition get_pref ::
  "float_mean \<Rightarrow> (stimulus_condition \<Rightarrow> cell) \<Rightarrow> real list \<Rightarrow> condition_table
     \<Rightarrow> statistics_table \<Rightarrow> nat \<Rightarrow> error + npfloat" where
  "get_pref mean col axis tbl stats unit_id =
     (case comprehension (spike_mean_mean mean stats unit_id)
             (similar_conditions col tbl axis) of
        Inl e \<Rightarrow> Inl e
      | Inr means \<Rightarrow> idxmax axis means)"

text \<open>
  The three searches.  Each reads its axis through the property (which may fill the
  cache); iterating over \<open>None\<close> would be a \<open>TypeError\<close>.
\<close>

definition get_pref_sf ::
  "float_mean \<Rightarrow> static_gratings \<Rightarrow> nat \<Rightarrow> (error + npfloat) \<times> static_gratings" where
  "get_pref_sf mean self unit_id =
     (case sfvals self of
        (None, self') \<Rightarrow> (Inl TypeError, self')
      | (Some axis, self') \<Rightarrow>
          (get_pref mean SF axis (stimulus_conditions self') (conditionwise_statistics self')
             unit_id, self'))"

definition get_pref_ori ::
  "float_mean \<Rightarrow> static_gratings \<Rightarrow> nat \<Rightarrow> (error + npfloat) \<times> static_gratings" where
  "get_pref_ori mean self unit_id =
     (case orivals self of
        (None, self') \<Rightarrow> (Inl TypeError, self')
      | (Some axis, self') \<Rightarrow>
          (get_pref mean Ori axis (stimulus_conditions self') (conditionwise_statistics self')
             unit_id, self'))"

definition get_pref_phase ::
  "float_mean \<Rightarrow> static_gratings \<Rightarrow> nat \<Rightarrow> (error + npfloat) \<times> static_gratings" where
  "get_pref_phase mean self unit_id =
     (case phasevals self of
        (None, self') \<Rightarrow> (Inl TypeError, self')
      | (Some axis, self') \<Rightarrow>
          (get_pref mean Phase axis (stimulus_conditions self') (conditionwise_statistics self')
             unit_id, self'))"

text \<open>
  The first column of \<open>metrics\<close>: \<open>[self._get_pref_sf(unit) for unit in unit_ids]\<close>.
  Nothing in \<open>metrics\<close> catches an exception, so a raise here ends the whole call.
\<close>

fun metrics_pref_sf_sg ::
  "float_mean \<Rightarrow> static_gratings \<Rightarrow> nat list \<Rightarrow> (error + npfloat list) \<times> static_gratings"
  where
  "metrics_pref_sf_sg mean self [] = (Inr [], self)"
| "metrics_pref_sf_sg mean self (unit # units) =
     (case get_pref_sf mean self unit of
        (Inl e, self') \<Rightarrow> (Inl e, self')
      | (Inr v, self') \<Rightarrow>
         (case metrics_pref_sf_sg mean self' units of
            (Inl e, self'') \<Rightarrow> (Inl e, self'')
          | (Inr vs, self'') \<Rightarrow> (Inr (v # vs), self'')))"

subsection \<open>Orientation selectivity\<close>

text \<open>
  Modelled from the spec: \<open>deg2rad\<close> is imported from the module \<open>stimulus_analysis\<close>,
  which is not among the sources.  The spec: convert each orientation (degrees) to
  radians.
\<close>

definition deg2rad :: "real \<Rightarrow> real" where
  "deg2rad d = d * pi / 180"

text \<open>
  Modelled from the spec: \<open>osi\<close> is imported from the module \<open>stimulus_analysis\<close>, which
  is not among the sources.  The spec: the index is the magnitude of the
  response-weighted vector sum \<open>\<Sum> r\<^sub>k e\<^sup>i\<^sup>\<theta>\<^sup>k / \<Sum> r\<^sub>k\<close>; if all responses are zero the index
  is undefined and the computation fails with an explicit undefined-index signal.
\<close>

definition osi :: "complex list \<Rightarrow> complex list \<Rightarrow> error + real" where
  "osi orivals_rad tuning =
     (if list_all (\<lambda>r. r = 0) tuning then Inl UndefinedIndexError
      else Inr (cmod (sum_list (map (\<lambda>(th, r). r * exp (\<i> * th)) (zip orivals_rad tuning))
                       / sum_list tuning)))"

text \<open>The comparison \<open>conditions[col] == pref\<close> of a cell with a float.\<close>

fun cell_is :: "cell \<Rightarrow> npfloat \<Rightarrow> bool" where
  "cell_is (Val v) (Fin a) = (v = a)"
| "cell_is c x = False"

text \<open>
  \<open>df.sort_values(by=['Ori'])\<close> on rows of (\<open>Ori\<close>, \<open>spike_mean\<close>).  Numbers sort
  ascending; a column of \<open>'null'\<close> only has nothing to reorder; comparing \<open>'null'\<close> with
  a number is a \<open>TypeError\<close>.  Rows with equal keys keep their order here.
\<close>

definition sort_values_Ori :: "(cell \<times> real) list \<Rightarrow> error + (cell \<times> real) list" where
  "sort_values_Ori df =
     (if list_all (\<lambda>(c, m). c = Null) df then Inr df
      else if list_ex (\<lambda>(c, m). c = Null) df then Inl TypeError
      else Inr (sort_key (\<lambda>(c, m). case c of Val v \<Rightarrow> v | Null \<Rightarrow> 0) df))"

text \<open>
  \<open>_get_osi\<close>.  \<open>selected_tuning\<close> is the part between the read of \<open>self.orivals\<close> and
  the call of \<open>osi\<close>: the selection of the conditions, the two \<open>.loc\<close> lookups, the
  \<open>Ori\<close> column assigned from the condition table, and the sort.
\<close>

definition selected_conditions :: "condition_table \<Rightarrow> npfloat \<Rightarrow> npfloat \<Rightarrow> nat list" where
  "selected_conditions tbl pref_sf pref_phase =
     map fst (filter (\<lambda>(cid, c). cell_is (SF c) pref_sf \<and> cell_is (Phase c) pref_phase) tbl)"

definition assign_Ori :: "condition_table \<Rightarrow> nat \<times> real \<Rightarrow> error + (cell \<times> real)" where
  "assign_Ori tbl row =
     (case map_of tbl (fst row) of
        None \<Rightarrow> Inl KeyError
      | Some c \<Rightarrow> Inr (Ori c, snd row))"

definition selected_tuning ::
  "static_gratings \<Rightarrow> nat \<Rightarrow> npfloat \<Rightarrow> npfloat \<Rightarrow> error + complex list" where
  "selected_tuning self unit_id pref_sf pref_phase =
     (case loc_unit (conditionwise_statistics self) unit_id of
        Inl e \<Rightarrow> Inl e
      | Inr rows \<Rightarrow>
         (case loc_conditions rows
                 (selected_conditions (stimulus_conditions self) pref_sf pref_phase) of
            Inl e \<Rightarrow> Inl e
          | Inr df \<Rightarrow>
             (case comprehension (assign_Ori (stimulus_conditions self)) df of
                Inl e \<Rightarrow> Inl e
              | Inr df_ori \<Rightarrow>
                 (case sort_values_Ori df_ori of
                    Inl e \<Rightarrow> Inl e
                  | Inr df_sorted \<Rightarrow> Inr (map (\<lambda>(c, m). complex_of_real m) df_sorted)))))"

definition get_osi ::
  "static_gratings \<Rightarrow> nat \<Rightarrow> npfloat \<Rightarrow> npfloat \<Rightarrow> (error + real) \<times> static_gratings" where
  "get_osi self unit_id pref_sf pref_phase =
     (case orivals self of
        (None, self') \<Rightarrow> (Inl TypeError, self')
      | (Some axis, self') \<Rightarrow>
         (let orivals_rad = map (\<lambda>d. complex_of_real (deg2rad d)) axis
          in case selected_tuning self' unit_id pref_sf pref_phase of
               Inl e \<Rightarrow> (Inl e, self')
             | Inr tuning \<Rightarrow> (osi orivals_rad tuning, self')))"

section \<open>The spatial-frequency curve fit\<close>

definition gauss_function :: "real \<Rightarrow> real \<Rightarrow> real \<Rightarrow> real \<Rightarrow> real" where
  "gauss_function x a x0 sigma = a * exp (- (x - x0)\<^sup>2 / (2 * sigma\<^sup>2))"

definition exp_function :: "real \<Rightarrow> real \<Rightarrow> real \<Rightarrow> real \<Rightarrow> real" where
  "exp_function x a b c = a * exp (- b * x) + c"

text \<open>
  \<open>scipy.optimize.curve_fit(f, xdata, ydata, p0, maxfev)\<close> is a library routine outside the
  repository.  The model takes it as a parameter: given the model function, the data,
  the start values and the evaluation cap it either raises or returns the three fitted
  parameters \<open>popt\<close>.
\<close>

type_synonym popt = "real \<times> real \<times> real"

type_synonym curve_fit_fun =
  "(real \<Rightarrow> real \<Rightarrow> real \<Rightarrow> real \<Rightarrow> real) \<Rightarrow> real list \<Rightarrow> real list \<Rightarrow> popt \<Rightarrow> nat
     \<Rightarrow> error + popt"

text \<open>The dense index grid \<open>np.arange(0., 4.1, 0.1)\<close> that both branches evaluate the fit on.\<close>

definition dense_grid :: "real list" where
  "dense_grid = arange 0 4.1 0.1"

text \<open>\<open>np.abs(sf_prediction - (sf_prediction.max() / 2.))\<close>\<close>

definition half_max_dist :: "real list \<Rightarrow> real list" where
  "half_max_dist sf_prediction =
     map (\<lambda>y. \<bar>y - Max (set sf_prediction) / 2\<bar>) sf_prediction"

text \<open>
  \<open>low_cut_ind\<close> and \<open>high_cut_ind\<close> as the source computes them: the first least distance
  to the half maximum before the peak sample, and from the peak sample on.
\<close>

definition low_cut_ind :: "real list \<Rightarrow> error + nat" where
  "low_cut_ind sf_prediction =
     (case np_argmax sf_prediction of
        Inl e \<Rightarrow> Inl e
      | Inr am \<Rightarrow> np_argmin (take am (half_max_dist sf_prediction)))"

definition high_cut_ind :: "real list \<Rightarrow> error + nat" where
  "high_cut_ind sf_prediction =
     (case np_argmax sf_prediction of
        Inl e \<Rightarrow> Inl e
      | Inr am \<Rightarrow>
          (case np_argmin (drop am (half_max_dist sf_prediction)) of
             Inl e \<Rightarrow> Inl e
           | Inr k \<Rightarrow> Inr (k + am)))"

text \<open>The index-to-frequency mapping \<open>0.02 * np.power(2, i)\<close>.\<close>

definition index_to_sf :: "real \<Rightarrow> real" where
  "index_to_sf i = 0.02 * 2 powr i"

text \<open>
  The two calls of \<open>curve_fit\<close> with their arguments: \<open>np.amax\<close> and \<open>np.amin\<close> of the
  responses are evaluated first and raise on an empty array.
\<close>

definition gauss_fit :: "curve_fit_fun \<Rightarrow> real list \<Rightarrow> real list \<Rightarrow> int \<Rightarrow> error + popt" where
  "gauss_fit curve_fit sf_tuning_responses sf_values pref_sf_index =
     (case np_amax sf_tuning_responses of
        Inl e \<Rightarrow> Inl e
      | Inr amax \<Rightarrow>
          curve_fit gauss_function (map real [0..<length sf_values]) sf_tuning_responses
            (amax, of_int pref_sf_index, 1) 2000)"

definition exp_fit :: "curve_fit_fun \<Rightarrow> real list \<Rightarrow> real list \<Rightarrow> error + popt" where
  "exp_fit curve_fit sf_tuning_responses sf_values =
     (case np_amax sf_tuning_responses of
        Inl e \<Rightarrow> Inl e
      | Inr amax \<Rightarrow>
         (case np_amin sf_tuning_responses of
            Inl e \<Rightarrow> Inl e
          | Inr amin \<Rightarrow>
              curve_fit exp_function (map real [0..<length sf_values]) sf_tuning_responses
                (amax, 2, amin) 2000))"

text \<open>
  \<open>fit_sf_tuning\<close>.  The four outputs start as NaN.  An exception inside a \<open>try\<close> block
  is swallowed and the outputs keep what was assigned before it was raised; only the
  read \<open>sf_values[pref_sf_index]\<close> of the boundary branch stands outside the \<open>try\<close>, so
  its \<open>IndexError\<close> reaches the caller.  The fitted parameters are finite reals here; a
  fit that returns a zero width or a non-finite parameter is outside the model.
\<close>

definition fit_sf_tuning ::
  "curve_fit_fun \<Rightarrow> real list \<Rightarrow> real list \<Rightarrow> int
     \<Rightarrow> error + (npfloat \<times> npfloat \<times> npfloat \<times> npfloat)" where
  "fit_sf_tuning curve_fit sf_tuning_responses sf_values pref_sf_index =
     (if 1 \<le> pref_sf_index \<and> pref_sf_index < int (length sf_values) - 1 then
        (case gauss_fit curve_fit sf_tuning_responses sf_values pref_sf_index of
           Inl e \<Rightarrow> Inr (NaN, NaN, NaN, NaN)
         | Inr (a, x0, sigma) \<Rightarrow>
            (let sf_prediction = map (\<lambda>x. gauss_function x a x0 sigma) dense_grid;
                 fit_sf_ind = Fin x0;
                 fit_sf = Fin (index_to_sf x0)
             in case low_cut_ind sf_prediction of
                  Inl e \<Rightarrow> Inr (fit_sf_ind, fit_sf, NaN, NaN)
                | Inr low \<Rightarrow>
                   (case high_cut_ind sf_prediction of
                      Inl e \<Rightarrow> Inr (fit_sf_ind, fit_sf, NaN, NaN)
                    | Inr high \<Rightarrow>
                        if low > 0 then
                          Inr (fit_sf_ind, fit_sf, Fin (index_to_sf (dense_grid ! low)), NaN)
                        else if high < 4 then
                          Inr (fit_sf_ind, fit_sf, NaN, Fin (index_to_sf (dense_grid ! high)))
                        else Inr (fit_sf_ind, fit_sf, NaN, NaN))))
      else
        (case py_index sf_values pref_sf_index of
           Inl e \<Rightarrow> Inl e
         | Inr pref_value \<Rightarrow>
            (let fit_sf_ind = Fin (of_int pref_sf_index);
                 fit_sf = Fin pref_value
             in case exp_fit curve_fit sf_tuning_responses sf_values of
                  Inl e \<Rightarrow> Inr (fit_sf_ind, fit_sf, NaN, NaN)
                | Inr (a, b, c) \<Rightarrow>
                   (let sf_prediction = map (\<lambda>x. exp_function x a b c) dense_grid
                    in if pref_sf_index = 0 then
                         (case high_cut_ind sf_prediction of
                            Inl e \<Rightarrow> Inr (fit_sf_ind, fit_sf, NaN, NaN)
                          | Inr high \<Rightarrow>
                              Inr (fit_sf_ind, fit_sf, NaN,
                                   Fin (index_to_sf (dense_grid ! high))))
                       else
                         (case low_cut_ind sf_prediction of
                            Inl e \<Rightarrow> Inr (fit_sf_ind, fit_sf, NaN, NaN)
                          | Inr low \<Rightarrow>
                              Inr (fit_sf_ind, fit_sf,
                                   Fin (index_to_sf (dense_grid ! low)), NaN))))))"

subsection \<open>The curve fit with the float64 evaluations as parameters\<close>

text \<open>
  The definitions above evaluate \<open>gauss_function\<close>, \<open>exp_function\<close> and the distance to the
  half maximum on the reals.  numpy evaluates them in float64, and which sample is the
  first greatest or the first closest one can depend on the rounding (the tail of a
  narrow fit rounds to equal distances).  The second embedding of \<open>fit_sf_tuning\<close>
  below is the same code with these three evaluations as parameters: \<open>gauss x a x0 sigma\<close>
  and \<open>expf x a b c\<close> stand for the float64 values of the two curves at a sample, and
  \<open>absdiff y m\<close> for the float64 value of \<open>np.abs(y - (m / 2.))\<close>.  Everything else (the
  grid, the maximum, the slices, the first least and greatest entries, the comparisons
  with 0 and 4, the branches and the swallowed exceptions) is as in the source.
\<close>

definition gauss_fit_np ::
  "(real \<Rightarrow> real \<Rightarrow> real \<Rightarrow> real \<Rightarrow> real) \<Rightarrow> curve_fit_fun \<Rightarrow> real list \<Rightarrow> real list \<Rightarrow> int
     \<Rightarrow> error + popt" where
  "gauss_fit_np gauss curve_fit sf_tuning_responses sf_values pref_sf_index =
     (case np_amax sf_tuning_responses of
        Inl e \<Rightarrow> Inl e
      | Inr amax \<Rightarrow>
          curve_fit gauss (map real [0..<length sf_values]) sf_tuning_responses
            (amax, of_int pref_sf_index, 1) 2000)"

definition exp_fit_np ::
  "(real \<Rightarrow> real \<Rightarrow> real \<Rightarrow> real \<Rightarrow> real) \<Rightarrow> curve_fit_fun \<Rightarrow> real list \<Rightarrow> real list
     \<Rightarrow> error + popt" where
  "exp_fit_np expf curve_fit sf_tuning_responses sf_values =
     (case np_amax sf_tuning_responses of
        Inl e \<Rightarrow> Inl e
      | Inr amax \<Rightarrow>
         (case np_amin sf_tuning_responses of
            Inl e \<Rightarrow> Inl e
          | Inr amin \<Rightarrow>
              curve_fit expf (map real [0..<length sf_values]) sf_tuning_responses
                (amax, 2, amin) 2000))"

definition half_max_dist_np :: "(real \<Rightarrow> real \<Rightarrow> real) \<Rightarrow> real list \<Rightarrow> real list" where
  "half_max_dist_np absdiff sf_prediction =
     map (\<lambda>y. absdiff y (Max (set sf_prediction))) sf_prediction"

definition low_cut_ind_np :: "(real \<Rightarrow> real \<Rightarrow> real) \<Rightarrow> real list \<Rightarrow> error + nat" where
  "low_cut_ind_np absdiff sf_prediction =
     (case np_argmax sf_prediction of
        Inl e \<Rightarrow> Inl e
      | Inr am \<Rightarrow> np_argmin (take am (half_max_dist_np absdiff sf_prediction)))"

definition high_cut_ind_np :: "(real \<Rightarrow> real \<Rightarrow> real) \<Rightarrow> real list \<Rightarrow> error + nat" where
  "high_cut_ind_np absdiff sf_prediction =
     (case np_argmax sf_prediction of
        Inl e \<Rightarrow> Inl e
      | Inr am \<Rightarrow>
          (case np_argmin (drop am (half_max_dist_np absdiff sf_prediction)) of
             Inl e \<Rightarrow> Inl e
           | Inr k \<Rightarrow> Inr (k + am)))"

definition fit_sf_tuning_np ::
  "(real \<Rightarrow> real \<Rightarrow> real \<Rightarrow> real \<Rightarrow> real) \<Rightarrow> (real \<Rightarrow> real \<Rightarrow> real \<Rightarrow> real \<Rightarrow> real)
     \<Rightarrow> (real \<Rightarrow> real \<Rightarrow> real) \<Rightarrow> curve_fit_fun \<Rightarrow> real list \<Rightarrow> real list \<Rightarrow> int
     \<Rightarrow> error + (npfloat \<times> npfloat \<times> npfloat \<times> npfloat)" where
  "fit_sf_tuning_np gauss expf absdiff curve_fit sf_tuning_responses sf_values pref_sf_index =
     (if 1 \<le> pref_sf_index \<and> pref_sf_index < int (length sf_values) - 1 then
        (case gauss_fit_np gauss curve_fit sf_tuning_responses sf_values pref_sf_index of
           Inl e \<Rightarrow> Inr (NaN, NaN, NaN, NaN)
         | Inr (a, x0, sigma) \<Rightarrow>
            (let sf_prediction = map (\<lambda>x. gauss x a x0 sigma) dense_grid;
                 fit_sf_ind = Fin x0;
                 fit_sf = Fin (index_to_sf x0)
             in case low_cut_ind_np absdiff sf_prediction of
                  Inl e \<Rightarrow> Inr (fit_sf_ind, fit_sf, NaN, NaN)
                | Inr low \<Rightarrow>
                   (case high_cut_ind_np absdiff sf_prediction of
                      Inl e \<Rightarrow> Inr (fit_sf_ind, fit_sf, NaN, NaN)
                    | Inr high \<Rightarrow>
                        if low > 0 then
                          Inr (fit_sf_ind, fit_sf, Fin (index_to_sf (dense_grid ! low)), NaN)
                        else if high < 4 then
                          Inr (fit_sf_ind, fit_sf, NaN, Fin (index_to_sf (dense_grid ! high)))
                        else Inr (fit_sf_ind, fit_sf, NaN, NaN))))
      else
        (case py_index sf_values pref_sf_index of
           Inl e \<Rightarrow> Inl e
         | Inr pref_value \<Rightarrow>
            (let fit_sf_ind = Fin (of_int pref_sf_index);
                 fit_sf = Fin pref_value
             in case exp_fit_np expf curve_fit sf_tuning_responses sf_values of
                  Inl e \<Rightarrow> Inr (fit_sf_ind, fit_sf, NaN, NaN)
                | Inr (a, b, c) \<Rightarrow>
                   (let sf_prediction = map (\<lambda>x. expf x a b c) dense_grid
                    in if pref_sf_index = 0 then
                         (case high_cut_ind_np absdiff sf_prediction of
                            Inl e \<Rightarrow> Inr (fit_sf_ind, fit_sf, NaN, NaN)
                          | Inr high \<Rightarrow>
                              Inr (fit_sf_ind, fit_sf, NaN,
                                   Fin (index_to_sf (dense_grid ! high))))
                       else
                         (case low_cut_ind_np absdiff sf_prediction of
                            Inl e \<Rightarrow> Inr (fit_sf_ind, fit_sf, NaN, NaN)
                          | Inr low \<Rightarrow>
                              Inr (fit_sf_ind, fit_sf,
                                   Fin (index_to_sf (dense_grid ! low)), NaN))))))"

section \<open>The discrimination index\<close>

text \<open>
  \<open>get_sfdi\<close>.  The trial values and the responses are arrays of finite values.  The only
  call that can raise is \<open>np.ptp\<close> (on empty responses); every division and the square
  root are numpy arithmetic, which returns an infinity or NaN where the result is
  undefined.  \<open>bias\<close> is a Python integer, so the divisor \<open>len(...) - bias\<close> is one too.
  The first argument is the float64 mean that \<open>mean_sweeps_trials.mean()\<close> stands for.
\<close>

definition get_sfdi :: "float_mean \<Rightarrow> real list \<Rightarrow> real list \<Rightarrow> int \<Rightarrow> error + npfloat" where
  "get_sfdi mean sf_tuning_responses mean_sweeps_trials bias =
     (let trial_mean = np_mean mean mean_sweeps_trials;
          sse_part = np_sqrt (np_div
            (np_sum (map (\<lambda>x. np_square (np_sub (Fin x) trial_mean)) mean_sweeps_trials))
            (Fin (of_int (int (length mean_sweeps_trials) - bias))))
      in case np_ptp sf_tuning_responses of
           Inl e \<Rightarrow> Inl e
         | Inr ptp \<Rightarrow> Inr (np_div (Fin ptp) (np_add (Fin ptp) (np_mul (Fin 2) sse_part))))"

section \<open>Notions the properties are stated with\<close>

text \<open>
  The cache of an object agrees with its table: each cached axis is unset or holds the
  axis of the table.  The constructor establishes this and every method keeps it.
\<close>

definition cache_ok :: "static_gratings \<Rightarrow> bool" where
  "cache_ok self \<longleftrightarrow>
     (priv_orivals self = None
        \<or> priv_orivals self = Some (axis_values Ori (stimulus_conditions self)))
     \<and> (priv_sfvals self = None
        \<or> priv_sfvals self = Some (axis_values SF (stimulus_conditions self)))
     \<and> (priv_phasevals self = None
        \<or> priv_phasevals self = Some (axis_values Phase (stimulus_conditions self)))"

text \<open>
  The unit has a recorded statistic for every condition that carries a value in the
  column, respectively for none of them.
\<close>

definition has_all_statistics ::
  "(stimulus_condition \<Rightarrow> cell) \<Rightarrow> condition_table \<Rightarrow> statistics_table \<Rightarrow> nat \<Rightarrow> bool" where
  "has_all_statistics col tbl stats unit_id =
     list_all (\<lambda>(cid, c). col c = Null \<or> map_of stats (unit_id, cid) \<noteq> None) tbl"

definition has_no_statistics ::
  "(stimulus_condition \<Rightarrow> cell) \<Rightarrow> condition_table \<Rightarrow> statistics_table \<Rightarrow> nat \<Rightarrow> bool" where
  "has_no_statistics col tbl stats unit_id =
     list_all (\<lambda>(cid, c). col c = Null \<or> map_of stats (unit_id, cid) = None) tbl"

text \<open>
  The mean-of-means response of a unit at an axis value, as computed: the float64 mean,
  over the conditions that carry the value (in table order), of the unit's mean spike
  count.
\<close>

definition mean_of_means ::
  "float_mean \<Rightarrow> (stimulus_condition \<Rightarrow> cell) \<Rightarrow> condition_table \<Rightarrow> statistics_table \<Rightarrow> nat
     \<Rightarrow> real \<Rightarrow> npfloat" where
  "mean_of_means mean col tbl stats unit_id v =
     np_mean mean (map (\<lambda>cid. the (map_of stats (unit_id, cid)))
       (map fst (filter (\<lambda>(cid, c). col c = Val v) tbl)))"

text \<open>
  \<open>v\<close> is on the axis, no axis value has a greater response, and every smaller axis
  value has a strictly smaller response: \<open>v\<close> is the first maximizer in ascending order.
  The responses are floats, compared as floats.
\<close>

definition first_maximizer :: "(real \<Rightarrow> npfloat) \<Rightarrow> real list \<Rightarrow> real \<Rightarrow> bool" where
  "first_maximizer f axis v \<longleftrightarrow>
     v \<in> set axis
     \<and> list_all (\<lambda>w. \<not> np_less (f v) (f w) \<and> (w < v \<longrightarrow> np_less (f w) (f v))) axis"

text \<open>
  The mean without rounding.  It is what float64 arithmetic returns for a single value,
  and wherever the sum and the quotient are representable; the concrete inputs below
  use it on such arrays only.
\<close>

definition exact_mean :: float_mean where
  "exact_mean xs = Fin (sum_list xs / real (length xs))"

text \<open>
  The float64 mean on the two arrays of equal values that the examples below use.  The
  float64 nearest to 0.1 is \<open>7205759403792794 / 2\<^sup>5\<^sup>6\<close>; adding three of them and dividing
  by 3 gives the next float64 above, \<open>7205759403792795 / 2\<^sup>5\<^sup>6\<close>.  The float64 nearest
  to 0.7 is \<open>6305039478318694 / 2\<^sup>5\<^sup>3\<close>; adding seven of them and dividing by 7 gives
  the next float64 above, \<open>6305039478318695 / 2\<^sup>5\<^sup>3\<close>.  On a single value the mean is
  the value.
\<close>

definition float64_mean_example :: float_mean where
  "float64_mean_example xs =
     (if xs = replicate 3 (7205759403792794 / 2 ^ 56) then Fin (7205759403792795 / 2 ^ 56)
      else if xs = replicate 7 (6305039478318694 / 2 ^ 53)
        then Fin (6305039478318695 / 2 ^ 53)
      else exact_mean xs)"

text \<open>
  Sample positions.  \<open>k\<close> is the first position below \<open>n\<close> with the greatest value of
  \<open>p\<close>; \<open>k\<close> is the first position from \<open>lo\<close> up to but excluding \<open>hi\<close> with the least
  value of \<open>d\<close>.
\<close>

definition first_max_position :: "(nat \<Rightarrow> real) \<Rightarrow> nat \<Rightarrow> nat \<Rightarrow> bool" where
  "first_max_position p n k \<longleftrightarrow> k < n \<and> (\<forall>i<n. p i \<le> p k) \<and> (\<forall>i<k. p i < p k)"

definition first_min_position :: "(nat \<Rightarrow> real) \<Rightarrow> nat \<Rightarrow> nat \<Rightarrow> nat \<Rightarrow> bool" where
  "first_min_position d lo hi k \<longleftrightarrow>
     lo \<le> k \<and> k < hi \<and> (\<forall>i. lo \<le> i \<and> i < hi \<longrightarrow> d k \<le> d i)
     \<and> (\<forall>i. lo \<le> i \<and> i < k \<longrightarrow> d k < d i)"

text \<open>Every listed condition is in the table with a numeric orientation.\<close>

definition numeric_orientations :: "condition_table \<Rightarrow> nat list \<Rightarrow> bool" where
  "numeric_orientations tbl cids =
     list_all (\<lambda>cid. case map_of tbl cid of None \<Rightarrow> False | Some c \<Rightarrow> Ori c \<noteq> Null) cids"

section \<open>A concrete session\<close>

text \<open>
  Three conditions: two gratings that differ in orientation, spatial frequency and
  phase, and the blank.  Unit 7 has a statistic for every condition, unit 9 for
  condition 0 only, unit 8 has none, and unit 5 is silent (zero) on both gratings.
\<close>

definition example_conditions :: condition_table where
  "example_conditions =
     [(0, \<lparr>Ori = Val 0, SF = Val 0.02, Phase = Val 0\<rparr>),
      (1, \<lparr>Ori = Val 90, SF = Val 0.04, Phase = Val 0.25\<rparr>),
      (2, \<lparr>Ori = Null, SF = Null, Phase = Null\<rparr>)]"

text \<open>
  Four conditions, one at the spatial frequency 0.02 and three at 0.04, to all of which
  unit 3 responds with the float64 nearest to 0.1.
\<close>

definition tie_conditions :: condition_table where
  "tie_conditions =
     [(0, \<lparr>Ori = Val 0, SF = Val 0.02, Phase = Val 0\<rparr>),
      (1, \<lparr>Ori = Val 0, SF = Val 0.04, Phase = Val 0\<rparr>),
      (2, \<lparr>Ori = Val 45, SF = Val 0.04, Phase = Val 0\<rparr>),
      (3, \<lparr>Ori = Val 90, SF = Val 0.04, Phase = Val 0\<rparr>)]"

definition tie_statistics :: statistics_table where
  "tie_statistics =
     [((3, 0), 7205759403792794 / 2 ^ 56), ((3, 1), 7205759403792794 / 2 ^ 56),
      ((3, 2), 7205759403792794 / 2 ^ 56), ((3, 3), 7205759403792794 / 2 ^ 56)]"

definition example_statistics :: statistics_table where
  "example_statistics =
     [((7, 0), 3), ((7, 1), 5), ((7, 2), 1), ((9, 0), 2), ((5, 0), 0), ((5, 1), 0)]"

section \<open>A concrete fit\<close>

text \<open>
  The dense prediction of a Gaussian fit with amplitude 1, centre 2 and width 1: what
  \<open>fit_sf_tuning\<close> evaluates when the responses \<open>[e\<^sup>-\<^sup>2, e\<^sup>-\<^sup>1\<^sup>/\<^sup>2, 1, e\<^sup>-\<^sup>1\<^sup>/\<^sup>2, e\<^sup>-\<^sup>2]\<close> on five
  spatial frequencies are fitted exactly.
\<close>

definition unit_gauss :: "real list" where
  "unit_gauss = map (\<lambda>x. gauss_function x 1 2 1) dense_grid"

text \<open>
  The dense prediction of a Gaussian fit with amplitude 1, centre 1 and width 1: what
  \<open>fit_sf_tuning\<close> evaluates when the responses \<open>[e\<^sup>-\<^sup>1\<^sup>/\<^sup>2, 1, e\<^sup>-\<^sup>1\<^sup>/\<^sup>2, e\<^sup>-\<^sup>2, e\<^sup>-\<^sup>9\<^sup>/\<^sup>2]\<close> on five
  spatial frequencies are fitted exactly.
\<close>

definition early_gauss :: "real list" where
  "early_gauss = map (\<lambda>x. gauss_function x 1 1 1) dense_grid"

text \<open>
  A fit routine that returns the parameters \<open>(1, 2, 1)\<close> whatever it is given, and an
  axis of seven spatial frequencies.
\<close>

definition constant_fit :: curve_fit_fun where
  "constant_fit f xdata ydata p0 maxfev = Inr (1, 2, 1)"

definition seven_sf_values :: "real list" where
  "seven_sf_values = [0.02, 0.04, 0.08, 0.16, 0.32, 0.64, 1.28]"

text \<open>The distance to the half maximum on the reals, \<open>np.abs(y - (m / 2.))\<close> without rounding.\<close>

definition exact_absdiff :: "real \<Rightarrow> real \<Rightarrow> real" where
  "exact_absdiff y m = \<bar>y - m / 2\<bar>"

section \<open>Properties of the curve fit\<close>

lemma dense_grid_eq: "dense_grid = map (\<lambda>i. real i / 10) [0..<41]"
  by (simp add: dense_grid_def arange_def)

lemma np_argmax_bound: "np_argmax xs = Inr k \<Longrightarrow> k < length xs"
proof -
  assume a: "np_argmax xs = Inr k"
  then have ne: "xs \<noteq> []" by (auto simp: np_argmax_def split: if_splits)
  then have "Max (set xs) \<in> set xs" by simp
  then have "takeWhile (\<lambda>y. y \<noteq> Max (set xs)) xs \<noteq> xs"
    by (metis (mono_tags, lifting) takeWhile_eq_all_conv)
  then have "length (takeWhile (\<lambda>y. y \<noteq> Max (set xs)) xs) < length xs"
    by (metis length_takeWhile_le le_neq_implies_less takeWhile_eq_take take_all_iff linorder_not_le)
  with a ne show ?thesis by (simp add: np_argmax_def)
qed

lemma np_argmin_bound: "np_argmin xs = Inr k \<Longrightarrow> k < length xs"
proof -
  assume a: "np_argmin xs = Inr k"
  then have ne: "xs \<noteq> []" by (auto simp: np_argmin_def split: if_splits)
  then have "Min (set xs) \<in> set xs" by simp
  then have "takeWhile (\<lambda>y. y \<noteq> Min (set xs)) xs \<noteq> xs"
    by (metis (mono_tags, lifting) takeWhile_eq_all_conv)
  then have "length (takeWhile (\<lambda>y. y \<noteq> Min (set xs)) xs) < length xs"
    by (metis length_takeWhile_le le_neq_implies_less takeWhile_eq_take take_all_iff linorder_not_le)
  with a ne show ?thesis by (simp add: np_argmin_def)
qed

lemma np_argmax_eqI:
  assumes "k < length xs" and "\<And>i. i < length xs \<Longrightarrow> i \<noteq> k \<Longrightarrow> xs ! i < xs ! k"
  shows "np_argmax xs = Inr k"
proof -
  have ne: "xs \<noteq> []" using assms(1) by auto
  have mx: "Max (set xs) = xs ! k"
  proof (rule Max_eqI)
    show "finite (set xs)" by simp
    show "xs ! k \<in> set xs" using assms(1) by simp
    fix y assume "y \<in> set xs"
    then obtain i where "i < length xs" "y = xs ! i" by (auto simp: in_set_conv_nth)
    then show "y \<le> xs ! k" using assms(2) [of i] by (cases "i = k") auto
  qed
  have "takeWhile (\<lambda>y. y \<noteq> xs ! k) xs = take k xs"
    by (rule takeWhile_eq_take_P_nth) (use assms in \<open>auto simp: less_imp_neq\<close>)
  then show ?thesis using ne assms(1) by (simp add: np_argmax_def mx)
qed

lemma np_argmin_props:
  assumes "np_argmin xs = Inr k"
  shows "k < length xs \<and> xs ! k = Min (set xs)"
proof -
  have ne: "xs \<noteq> []" using assms by (auto simp: np_argmin_def split: if_splits)
  have k: "k = length (takeWhile (\<lambda>y. y \<noteq> Min (set xs)) xs)"
    using assms ne by (simp add: np_argmin_def)
  have lt: "k < length xs" using assms by (rule np_argmin_bound)
  have "\<not> (xs ! k \<noteq> Min (set xs))"
    using nth_length_takeWhile [of "\<lambda>y. y \<noteq> Min (set xs)" xs] lt k by simp
  then show ?thesis using lt by simp
qed


lemma Max_eq_nth:
  assumes "k < length xs" and "\<And>i. i < length xs \<Longrightarrow> xs ! i \<le> xs ! k"
  shows "Max (set (xs::real list)) = xs ! k"
proof (rule Max_eqI)
  show "finite (set xs)" by simp
  show "xs ! k \<in> set xs" using assms(1) by simp
  fix y assume "y \<in> set xs"
  then obtain i where "i < length xs" "y = xs ! i" by (auto simp: in_set_conv_nth)
  then show "y \<le> xs ! k" using assms(2) by simp
qed

lemma low_cut_ind_bound:
  assumes "low_cut_ind p = Inr l" shows "l < length p"
proof -
  obtain am where am: "np_argmax p = Inr am" and l: "np_argmin (take am (half_max_dist p)) = Inr l"
    using assms by (auto simp: low_cut_ind_def split: sum.splits)
  have "l < length (take am (half_max_dist p))" using l by (rule np_argmin_bound)
  then show ?thesis by (simp add: half_max_dist_def)
qed

lemma high_cut_ind_bound:
  assumes "high_cut_ind p = Inr h" shows "h < length p"
proof -
  obtain am k where am: "np_argmax p = Inr am"
    and k: "np_argmin (drop am (half_max_dist p)) = Inr k" and h: "h = k + am"
    using assms by (auto simp: high_cut_ind_def split: sum.splits)
  have "k < length (drop am (half_max_dist p))" using k by (rule np_argmin_bound)
  then show ?thesis using h by (simp add: half_max_dist_def)
qed

lemma dense_grid_nth: "i < 41 \<Longrightarrow> dense_grid ! i = real i / 10"
  by (simp add: dense_grid_eq)

lemma length_dense_grid: "length dense_grid = 41"
  by (simp add: dense_grid_eq)

lemma unit_gauss_nth: "i < 41 \<Longrightarrow> unit_gauss ! i = exp (- (real i / 10 - 2)\<^sup>2 / 2)"
  by (simp add: unit_gauss_def dense_grid_eq gauss_function_def)

lemma length_unit_gauss: "length unit_gauss = 41"
  by (simp add: unit_gauss_def length_dense_grid)

lemma unit_gauss_peak:
  assumes "i < 41" and "i \<noteq> 20" shows "unit_gauss ! i < unit_gauss ! 20"
proof -
  have "real i / 10 - 2 \<noteq> 0" using assms(2) by auto
  then have "0 < (real i / 10 - 2)\<^sup>2" by simp
  then have "exp (- (real i / 10 - 2)\<^sup>2 / 2) < exp 0" by (subst exp_less_cancel_iff) simp
  then show ?thesis using assms(1) by (simp add: unit_gauss_nth)
qed

lemma unit_gauss_argmax: "np_argmax unit_gauss = Inr 20"
  by (rule np_argmax_eqI) (simp_all add: length_unit_gauss unit_gauss_peak)

lemma unit_gauss_Max: "Max (set unit_gauss) = 1"
proof -
  have "Max (set unit_gauss) = unit_gauss ! 20"
    by (rule Max_eq_nth) (use unit_gauss_peak in \<open>auto simp: length_unit_gauss intro: less_imp_le
      elim!: meta_allE\<close>)
  then show ?thesis by (simp add: unit_gauss_nth)
qed


lemma exp_minus_two_le: "exp (- 2 :: real) \<le> 1 / 4"
proof -
  have "(2::real) \<le> exp 1" using exp_ge_add_one_self [of "1::real"] by simp
  then have "(2::real) * 2 \<le> exp 1 * exp 1" by (intro mult_mono) simp_all
  then have "(4::real) \<le> exp 2" by (simp flip: exp_add)
  then have "inverse (exp (2::real)) \<le> inverse 4" by (intro le_imp_inverse_le) simp_all
  then show ?thesis by (simp add: exp_minus)
qed

lemma exp_minus_half_bounds: "1 / 4 < exp (- (1 / 2) :: real)" "exp (- (1 / 2) :: real) < 3 / 4"
proof -
  have "exp (1 / 2 :: real) \<le> exp 1" by simp
  also have "\<dots> \<le> 3" by (rule exp_le)
  finally have "inverse (3::real) \<le> inverse (exp (1 / 2))"
    by (intro le_imp_inverse_le) simp_all
  then show "1 / 4 < exp (- (1 / 2) :: real)" by (simp add: exp_minus)
  have "(3 / 2 :: real) \<le> exp (1 / 2)" using exp_ge_add_one_self [of "1 / 2 :: real"] by simp
  then have "inverse (exp (1 / 2 :: real)) \<le> inverse (3 / 2)"
    by (intro le_imp_inverse_le) simp_all
  then show "exp (- (1 / 2) :: real) < 3 / 4" by (simp add: exp_minus)
qed

lemma unit_gauss_dist_nth:
  "i < 41 \<Longrightarrow> half_max_dist unit_gauss ! i = \<bar>exp (- (real i / 10 - 2)\<^sup>2 / 2) - 1 / 2\<bar>"
  by (simp add: half_max_dist_def unit_gauss_Max length_unit_gauss unit_gauss_nth)

lemma unit_gauss_dist_edge:
  "half_max_dist unit_gauss ! 10 < half_max_dist unit_gauss ! 0"
  "half_max_dist unit_gauss ! 30 < half_max_dist unit_gauss ! 40"
  using exp_minus_two_le exp_minus_half_bounds
  by (simp_all add: unit_gauss_dist_nth power2_eq_square)

lemma argmin_not_at:
  assumes "np_argmin xs = Inr k" and "j < length xs" and "i < length xs" and "xs ! j < xs ! i"
  shows "k \<noteq> i"
proof
  assume "k = i"
  then have "xs ! i = Min (set xs)" using np_argmin_props [OF assms(1)] by simp
  moreover have "Min (set xs) \<le> xs ! j" using assms(2) by simp
  ultimately show False using assms(4) by simp
qed

lemma unit_gauss_low: "\<exists>l. low_cut_ind unit_gauss = Inr l \<and> 0 < l \<and> l < 20"
proof -
  define xs where "xs = take 20 (half_max_dist unit_gauss)"
  have len: "length xs = 20" by (simp add: xs_def half_max_dist_def length_unit_gauss)
  then have "xs \<noteq> []" by auto
  then obtain l where l: "np_argmin xs = Inr l" by (auto simp: np_argmin_def)
  then have p: "l < length xs" using np_argmin_bound by blast
  have "xs ! 10 < xs ! 0" using unit_gauss_dist_edge(1) by (simp add: xs_def)
  then have "l \<noteq> 0" using argmin_not_at [OF l, of 10 0] len by simp
  then show ?thesis using l p len by (simp add: low_cut_ind_def unit_gauss_argmax xs_def)
qed

lemma unit_gauss_high: "\<exists>h. high_cut_ind unit_gauss = Inr h \<and> 20 \<le> h \<and> h < 40"
proof -
  define ys where "ys = drop 20 (half_max_dist unit_gauss)"
  have len: "length ys = 21" by (simp add: ys_def half_max_dist_def length_unit_gauss)
  then have "ys \<noteq> []" by auto
  then obtain k where k: "np_argmin ys = Inr k" by (auto simp: np_argmin_def)
  then have p: "k < length ys" using np_argmin_bound by blast
  have "ys ! 10 < ys ! 20" using unit_gauss_dist_edge(2)
    by (simp add: ys_def half_max_dist_def length_unit_gauss)
  then have "k \<noteq> 20" using argmin_not_at [OF k, of 10 20] len by simp
  then have "k < 20" using p len by simp
  then show ?thesis using k by (simp add: high_cut_ind_def unit_gauss_argmax ys_def)
qed

text \<open>
  C1 (the code departs from it).  For the exact fit above both half-maximum crossings lie
  strictly inside the 41 samples (\<open>0 < low_cut_ind\<close> and \<open>high_cut_ind < 40\<close>), the low
  cutoff is reported, and the high cutoff is left NaN: the \<open>elif\<close> never looks at the
  high side once the low side has been taken.
\<close>

theorem fit_sf_tuning_interior_drops_high_cutoff:
  "\<exists>l h. low_cut_ind (map (\<lambda>x. gauss_function x 1 2 1) dense_grid) = Inr l \<and> 0 < l
     \<and> high_cut_ind (map (\<lambda>x. gauss_function x 1 2 1) dense_grid) = Inr h \<and> h < 40
     \<and> fit_sf_tuning (\<lambda>f xs ys p n. Inr (1, 2, 1))
          [exp (- 2), exp (- (1 / 2)), 1, exp (- (1 / 2)), exp (- 2)]
          [0.02, 0.04, 0.08, 0.16, 0.32] 2
        = Inr (Fin 2, Fin 0.08, Fin (index_to_sf (real l / 10)), NaN)"
proof -
  obtain l where l: "low_cut_ind unit_gauss = Inr l" "0 < l" "l < 20"
    using unit_gauss_low by blast
  obtain h where h: "high_cut_ind unit_gauss = Inr h" "h < 40"
    using unit_gauss_high by blast
  have fit: "gauss_fit (\<lambda>f xs ys p n. Inr (1, 2, 1))
          [exp (- 2), exp (- (1 / 2)), 1, exp (- (1 / 2)), exp (- 2)]
          [0.02, 0.04, 0.08, 0.16, 0.32] 2 = Inr (1, 2, 1)"
    by (simp add: gauss_fit_def np_amax_def)
  have "fit_sf_tuning (\<lambda>f xs ys p n. Inr (1, 2, 1))
          [exp (- 2), exp (- (1 / 2)), 1, exp (- (1 / 2)), exp (- 2)]
          [0.02, 0.04, 0.08, 0.16, 0.32] 2
        = Inr (Fin 2, Fin 0.08, Fin (index_to_sf (real l / 10)), NaN)"
    using l h fit by (simp add: fit_sf_tuning_def unit_gauss_def [symmetric] dense_grid_nth
        index_to_sf_def)
  then show ?thesis using l h by (auto simp: unit_gauss_def)
qed


lemma last_dense_grid: "last dense_grid = 4"
  by (simp add: last_conv_nth length_dense_grid dense_grid_nth flip: length_0_conv)

text \<open>No call of \<open>fit_sf_tuning\<close> reports both cutoffs.\<close>

lemma fit_sf_tuning_never_both_cutoffs:
  "case fit_sf_tuning curve_fit sf_tuning_responses sf_values pref_sf_index of
     Inl e \<Rightarrow> True
   | Inr (fit_sf_ind, fit_sf, sf_low_cutoff, sf_high_cutoff) \<Rightarrow>
       sf_low_cutoff = NaN \<or> sf_high_cutoff = NaN"
  by (simp add: fit_sf_tuning_def Let_def split: sum.splits prod.splits)

text \<open>
  The second embedding is the first one at the exact evaluations.
\<close>

lemma half_max_dist_np_exact: "half_max_dist p = half_max_dist_np exact_absdiff p"
  by (simp add: half_max_dist_def half_max_dist_np_def exact_absdiff_def)

lemma low_cut_ind_np_exact: "low_cut_ind p = low_cut_ind_np exact_absdiff p"
  unfolding low_cut_ind_def low_cut_ind_np_def half_max_dist_np_exact ..

lemma high_cut_ind_np_exact: "high_cut_ind p = high_cut_ind_np exact_absdiff p"
  unfolding high_cut_ind_def high_cut_ind_np_def half_max_dist_np_exact ..

lemma gauss_fit_np_exact: "gauss_fit cf r sv i = gauss_fit_np gauss_function cf r sv i"
  by (simp add: gauss_fit_def gauss_fit_np_def)

lemma exp_fit_np_exact: "exp_fit cf r sv = exp_fit_np exp_function cf r sv"
  by (simp add: exp_fit_def exp_fit_np_def)

lemma fit_sf_tuning_np_exact:
  "fit_sf_tuning curve_fit sf_tuning_responses sf_values pref_sf_index
     = fit_sf_tuning_np gauss_function exp_function exact_absdiff curve_fit
         sf_tuning_responses sf_values pref_sf_index"
  unfolding fit_sf_tuning_def fit_sf_tuning_np_def low_cut_ind_np_exact high_cut_ind_np_exact
    gauss_fit_np_exact exp_fit_np_exact ..

text \<open>
  What \<open>argmax\<close> and \<open>argmin\<close> return, as sample positions: the first greatest entry, and
  the first least entry of the slice before the peak and of the slice from the peak on.
\<close>

lemma np_argmax_first_max:
  assumes "np_argmax xs = Inr k"
  shows "first_max_position (\<lambda>i. xs ! i) (length xs) k"
proof -
  have ne: "xs \<noteq> []" using assms by (auto simp: np_argmax_def split: if_splits)
  have k: "k = length (takeWhile (\<lambda>y. y \<noteq> Max (set xs)) xs)"
    using assms ne by (simp add: np_argmax_def)
  have lt: "k < length xs" using assms by (rule np_argmax_bound)
  have "\<not> (xs ! k \<noteq> Max (set xs))"
    using nth_length_takeWhile [of "\<lambda>y. y \<noteq> Max (set xs)" xs] lt k by simp
  then have mx: "xs ! k = Max (set xs)" by simp
  have le: "xs ! i \<le> xs ! k" if "i < length xs" for i
    using that mx by simp
  have "xs ! i < xs ! k" if "i < k" for i
  proof -
    have "takeWhile (\<lambda>y. y \<noteq> Max (set xs)) xs ! i = xs ! i"
      using that k by (simp add: takeWhile_nth)
    moreover have "takeWhile (\<lambda>y. y \<noteq> Max (set xs)) xs ! i
                     \<in> set (takeWhile (\<lambda>y. y \<noteq> Max (set xs)) xs)"
      using that k by simp
    ultimately have "xs ! i \<noteq> Max (set xs)" by (metis set_takeWhileD)
    moreover have "xs ! i \<le> xs ! k" using that lt le by simp
    ultimately show ?thesis using mx by simp
  qed
  then show ?thesis using lt le by (simp add: first_max_position_def)
qed

lemma np_argmin_first_min:
  assumes "np_argmin xs = Inr k"
  shows "first_min_position (\<lambda>i. xs ! i) 0 (length xs) k"
proof -
  have ne: "xs \<noteq> []" using assms by (auto simp: np_argmin_def split: if_splits)
  have k: "k = length (takeWhile (\<lambda>y. y \<noteq> Min (set xs)) xs)"
    using assms ne by (simp add: np_argmin_def)
  have p: "k < length xs" "xs ! k = Min (set xs)" using np_argmin_props [OF assms] by simp_all
  have le: "xs ! k \<le> xs ! i" if "i < length xs" for i
    using that p(2) by simp
  have "xs ! k < xs ! i" if "i < k" for i
  proof -
    have "takeWhile (\<lambda>y. y \<noteq> Min (set xs)) xs ! i = xs ! i"
      using that k by (simp add: takeWhile_nth)
    moreover have "takeWhile (\<lambda>y. y \<noteq> Min (set xs)) xs ! i
                     \<in> set (takeWhile (\<lambda>y. y \<noteq> Min (set xs)) xs)"
      using that k by simp
    ultimately have "xs ! i \<noteq> Min (set xs)" by (metis set_takeWhileD)
    moreover have "xs ! k \<le> xs ! i" using that p(1) le by simp
    ultimately show ?thesis using p(2) by simp
  qed
  then show ?thesis using p(1) le by (simp add: first_min_position_def)
qed

lemma np_argmax_total: "xs \<noteq> [] \<Longrightarrow> \<exists>k. np_argmax xs = Inr k"
  by (simp add: np_argmax_def)

lemma np_argmin_total: "xs \<noteq> [] \<Longrightarrow> \<exists>k. np_argmin xs = Inr k"
  by (simp add: np_argmin_def)

lemma first_min_take:
  assumes "np_argmin (take am ys) = Inr l" and "am \<le> length ys"
  shows "first_min_position (\<lambda>i. ys ! i) 0 am l"
proof -
  have len: "length (take am ys) = am" using assms(2) by simp
  note f = np_argmin_first_min [OF assms(1), unfolded first_min_position_def len]
  have l: "l < am" using f by simp
  have nth: "take am ys ! i = ys ! i" if "i < am" for i
    using that by simp
  have le: "ys ! l \<le> ys ! i" if "i < am" for i
  proof -
    have "take am ys ! l \<le> take am ys ! i" using f that by blast
    then show ?thesis using that l by (simp only: nth)
  qed
  have lt: "ys ! l < ys ! i" if "i < l" for i
  proof -
    have "take am ys ! l < take am ys ! i" using f that by blast
    moreover have "i < am" using that l by simp
    ultimately show ?thesis using l by (simp only: nth)
  qed
  show ?thesis using l le lt by (simp add: first_min_position_def)
qed

lemma first_min_drop:
  assumes "np_argmin (drop am ys) = Inr k" and "am \<le> length ys"
  shows "first_min_position (\<lambda>i. ys ! i) am (length ys) (k + am)"
proof -
  have len: "length (drop am ys) = length ys - am" by simp
  note f = np_argmin_first_min [OF assms(1), unfolded first_min_position_def len]
  have k: "k < length ys - am" using f by simp
  have le: "ys ! (k + am) \<le> ys ! i" if "am \<le> i" "i < length ys" for i
  proof -
    have "i - am < length ys - am" using that by linarith
    then have "drop am ys ! k \<le> drop am ys ! (i - am)" using f by blast
    then show ?thesis using that assms(2) k by (simp add: add.commute)
  qed
  have lt: "ys ! (k + am) < ys ! i" if "am \<le> i" "i < k + am" for i
  proof -
    have "i - am < k" using that by linarith
    then have "drop am ys ! k < drop am ys ! (i - am)" using f by blast
    then show ?thesis using that assms(2) k by (simp add: add.commute)
  qed
  show ?thesis using k le lt by (auto simp: first_min_position_def)
qed


lemma first_max_position_cong:
  assumes "\<And>i. i < n \<Longrightarrow> p i = q i"
  shows "first_max_position p n k = first_max_position q n k"
  using assms by (auto simp: first_max_position_def)

lemma first_min_position_cong:
  assumes "\<And>i. i < hi \<Longrightarrow> d i = e i"
  shows "first_min_position d lo hi k = first_min_position e lo hi k"
proof (cases "k < hi")
  case True
  then show ?thesis using assms by (auto simp: first_min_position_def)
next
  case False
  then show ?thesis by (simp add: first_min_position_def)
qed

lemma cut_inds_np:
  assumes "P \<noteq> []"
  shows "\<exists>am. first_max_position (\<lambda>i. P ! i) (length P) am
      \<and> (if am = 0 then low_cut_ind_np absdiff P = Inl ValueError
          else \<exists>l. low_cut_ind_np absdiff P = Inr l
                 \<and> first_min_position (\<lambda>i. absdiff (P ! i) (P ! am)) 0 am l)
      \<and> (\<exists>h. high_cut_ind_np absdiff P = Inr h
             \<and> first_min_position (\<lambda>i. absdiff (P ! i) (P ! am)) am (length P) h)"
proof -
  obtain am where am: "np_argmax P = Inr am" using np_argmax_total [OF assms] by blast
  note fm = np_argmax_first_max [OF am]
  have lt: "am < length P" using am by (rule np_argmax_bound)
  have mx: "Max (set P) = P ! am"
    by (rule Max_eq_nth [OF lt]) (use fm in \<open>simp add: first_max_position_def\<close>)
  define D where "D = half_max_dist_np absdiff P"
  have lenD: "length D = length P" by (simp add: D_def half_max_dist_np_def)
  have nthD: "D ! i = absdiff (P ! i) (P ! am)" if "i < length P" for i
    using that by (simp add: D_def half_max_dist_np_def mx)
  have low: "if am = 0 then low_cut_ind_np absdiff P = Inl ValueError
          else \<exists>l. low_cut_ind_np absdiff P = Inr l
                 \<and> first_min_position (\<lambda>i. absdiff (P ! i) (P ! am)) 0 am l"
  proof (cases "am = 0")
    case True
    then show ?thesis using am by (simp add: low_cut_ind_np_def np_argmin_def)
  next
    case False
    then have "take am D \<noteq> []" using lt lenD by auto
    then obtain l where l: "np_argmin (take am D) = Inr l" using np_argmin_total by blast
    have "first_min_position (\<lambda>i. D ! i) 0 am l"
      by (rule first_min_take [OF l]) (use lt lenD in simp)
    moreover have "first_min_position (\<lambda>i. D ! i) 0 am l
                   = first_min_position (\<lambda>i. absdiff (P ! i) (P ! am)) 0 am l"
      by (rule first_min_position_cong) (use lt nthD in simp)
    ultimately have "first_min_position (\<lambda>i. absdiff (P ! i) (P ! am)) 0 am l" by simp
    moreover have "low_cut_ind_np absdiff P = Inr l"
      using am l by (simp add: low_cut_ind_np_def D_def)
    ultimately show ?thesis using False by auto
  qed
  have "drop am D \<noteq> []" using lt lenD by simp
  then obtain k where k: "np_argmin (drop am D) = Inr k" using np_argmin_total by blast
  have "first_min_position (\<lambda>i. D ! i) am (length D) (k + am)"
    by (rule first_min_drop [OF k]) (use lt lenD in simp)
  moreover have "first_min_position (\<lambda>i. D ! i) am (length P) (k + am)
                 = first_min_position (\<lambda>i. absdiff (P ! i) (P ! am)) am (length P) (k + am)"
    by (rule first_min_position_cong) (use nthD in simp)
  ultimately have "first_min_position (\<lambda>i. absdiff (P ! i) (P ! am)) am (length P) (k + am)"
    by (simp add: lenD)
  moreover have "high_cut_ind_np absdiff P = Inr (k + am)"
    using am k by (simp add: high_cut_ind_np_def D_def)
  ultimately have high: "\<exists>h. high_cut_ind_np absdiff P = Inr h
             \<and> first_min_position (\<lambda>i. absdiff (P ! i) (P ! am)) am (length P) h" by blast
  show ?thesis using fm low high by blast
qed

lemma cut_inds_dense:
  "\<exists>am. first_max_position (\<lambda>i. f (real i / 10)) 41 am
      \<and> (if am = 0 then low_cut_ind_np absdiff (map f dense_grid) = Inl ValueError
          else \<exists>l. low_cut_ind_np absdiff (map f dense_grid) = Inr l \<and> l < 41
                 \<and> first_min_position (\<lambda>i. absdiff (f (real i / 10)) (f (real am / 10))) 0 am l)
      \<and> (\<exists>h. high_cut_ind_np absdiff (map f dense_grid) = Inr h \<and> h < 41
             \<and> first_min_position (\<lambda>i. absdiff (f (real i / 10)) (f (real am / 10))) am 41 h)"
proof -
  define P where "P = map f dense_grid"
  have len: "length P = 41" by (simp add: P_def length_dense_grid)
  have nth: "P ! i = f (real i / 10)" if "i < 41" for i
    using that by (simp add: P_def length_dense_grid dense_grid_nth)
  have "P \<noteq> []" using len by auto
  from cut_inds_np [OF this, of absdiff] obtain am where
    fm: "first_max_position (\<lambda>i. P ! i) 41 am"
    and low: "if am = 0 then low_cut_ind_np absdiff P = Inl ValueError
          else \<exists>l. low_cut_ind_np absdiff P = Inr l
                 \<and> first_min_position (\<lambda>i. absdiff (P ! i) (P ! am)) 0 am l"
    and high: "\<exists>h. high_cut_ind_np absdiff P = Inr h
             \<and> first_min_position (\<lambda>i. absdiff (P ! i) (P ! am)) am 41 h"
    unfolding len by blast
  have am: "am < 41" using fm by (simp add: first_max_position_def)
  have c1: "first_max_position (\<lambda>i. P ! i) 41 am = first_max_position (\<lambda>i. f (real i / 10)) 41 am"
    by (rule first_max_position_cong) (simp add: nth)
  have c2: "first_min_position (\<lambda>i. absdiff (P ! i) (P ! am)) lo 41 k
            = first_min_position (\<lambda>i. absdiff (f (real i / 10)) (f (real am / 10))) lo 41 k"
    for lo k
    by (rule first_min_position_cong) (simp add: nth am)
  have c3: "first_min_position (\<lambda>i. absdiff (P ! i) (P ! am)) 0 am k
            = first_min_position (\<lambda>i. absdiff (f (real i / 10)) (f (real am / 10))) 0 am k"
    for k
    by (rule first_min_position_cong) (use am in \<open>simp add: nth\<close>)
  have low': "if am = 0 then low_cut_ind_np absdiff P = Inl ValueError
          else \<exists>l. low_cut_ind_np absdiff P = Inr l \<and> l < 41
                 \<and> first_min_position (\<lambda>i. absdiff (f (real i / 10)) (f (real am / 10))) 0 am l"
  proof (cases "am = 0")
    case True
    then show ?thesis using low by simp
  next
    case False
    then obtain l where l: "low_cut_ind_np absdiff P = Inr l"
        "first_min_position (\<lambda>i. absdiff (P ! i) (P ! am)) 0 am l"
      using low by auto
    have "l < 41" using l(2) am by (simp add: first_min_position_def)
    then show ?thesis using False l c3 by auto
  qed
  obtain h where h: "high_cut_ind_np absdiff P = Inr h"
        "first_min_position (\<lambda>i. absdiff (P ! i) (P ! am)) am 41 h"
    using high by blast
  have "h < 41" using h(2) by (simp add: first_min_position_def)
  then have high': "\<exists>h. high_cut_ind_np absdiff P = Inr h \<and> h < 41
             \<and> first_min_position (\<lambda>i. absdiff (f (real i / 10)) (f (real am / 10))) am 41 h"
    using h c2 by auto
  have fm': "first_max_position (\<lambda>i. f (real i / 10)) 41 am" using fm c1 by simp
  note c = conjI [OF fm' conjI [OF low' high'], unfolded P_def]
  show ?thesis by (rule exI) (rule c)
qed

text \<open>
  C10 (as amended).  The dense grid is the 41 samples \<open>0.0, 0.1, \<dots>, 4.0\<close> whatever the
  axis, and the cutoffs are sample positions on it.  Whenever the fit returns, with
  \<open>am\<close> the first sample of greatest prediction, \<open>l\<close> the first sample before \<open>am\<close> and
  \<open>h\<close> the first sample from \<open>am\<close> on whose prediction is closest to half the maximum:

  \<^item> the interior branch returns the fitted centre and its frequency, and the low cutoff
    \<open>0.02 * 2\<^sup>l\<^sup>/\<^sup>1\<^sup>0\<close> exactly when \<open>0 < l\<close>: sample 0 is the low extreme.  The high cutoff
    is the one of sample \<open>h\<close> and is written only for \<open>l = 0\<close> and \<open>h < 4\<close>, a comparison
    of the sample position \<open>h\<close> (0 to 40) with 4; nothing is reported when \<open>am = 0\<close>,
    where the slice before the peak is empty;
  \<^item> the boundary branch returns \<open>pref_sf_index\<close> and \<open>sf_values[pref_sf_index]\<close>, with the
    high cutoff of sample \<open>h\<close> for \<open>pref_sf_index = 0\<close>, and otherwise (the last index
    among them) the low cutoff of sample \<open>l\<close>, or no cutoff when \<open>am = 0\<close>; no test of
    the range is made;
  \<^item> the last grid value is 4, which is \<open>len(sf_values) - 1\<close> only for an axis of length 5.

  The curves and the distance are the parameters \<open>gauss\<close>, \<open>expf\<close> and \<open>absdiff\<close>, so the
  statement holds for the float64 evaluations as for the exact ones.
\<close>

theorem fit_sf_tuning_dense_grid:
  "dense_grid = map (\<lambda>i. real i / 10) [0..<41]
   \<and> (1 \<le> pref_sf_index \<and> pref_sf_index < int (length sf_values) - 1
        \<and> gauss_fit_np gauss curve_fit sf_tuning_responses sf_values pref_sf_index
            = Inr (a, x0, sigma)
      \<longrightarrow> (\<exists>am. first_max_position (\<lambda>i. gauss (real i / 10) a x0 sigma) 41 am
             \<and> (if am = 0 then
                  fit_sf_tuning_np gauss expf absdiff curve_fit sf_tuning_responses sf_values
                      pref_sf_index
                    = Inr (Fin x0, Fin (index_to_sf x0), NaN, NaN)
                else
                  (\<exists>l h.
                     first_min_position
                       (\<lambda>i. absdiff (gauss (real i / 10) a x0 sigma)
                                     (gauss (real am / 10) a x0 sigma)) 0 am l
                     \<and> first_min_position
                         (\<lambda>i. absdiff (gauss (real i / 10) a x0 sigma)
                                       (gauss (real am / 10) a x0 sigma)) am 41 h
                     \<and> fit_sf_tuning_np gauss expf absdiff curve_fit sf_tuning_responses
                           sf_values pref_sf_index
                         = Inr (Fin x0, Fin (index_to_sf x0),
                                (if 0 < l then Fin (index_to_sf (real l / 10)) else NaN),
                                (if l = 0 \<and> h < 4 then Fin (index_to_sf (real h / 10))
                                 else NaN))))))
   \<and> (\<not> (1 \<le> pref_sf_index \<and> pref_sf_index < int (length sf_values) - 1)
        \<and> py_index sf_values pref_sf_index = Inr pref_value
        \<and> exp_fit_np expf curve_fit sf_tuning_responses sf_values = Inr (a', b', c')
      \<longrightarrow> (\<exists>am. first_max_position (\<lambda>i. expf (real i / 10) a' b' c') 41 am
             \<and> (if pref_sf_index = 0 then
                  (\<exists>h. first_min_position
                         (\<lambda>i. absdiff (expf (real i / 10) a' b' c')
                                       (expf (real am / 10) a' b' c')) am 41 h
                     \<and> fit_sf_tuning_np gauss expf absdiff curve_fit sf_tuning_responses
                           sf_values pref_sf_index
                         = Inr (Fin 0, Fin pref_value, NaN, Fin (index_to_sf (real h / 10))))
                else if am = 0 then
                  fit_sf_tuning_np gauss expf absdiff curve_fit sf_tuning_responses sf_values
                      pref_sf_index
                    = Inr (Fin (of_int pref_sf_index), Fin pref_value, NaN, NaN)
                else
                  (\<exists>l. first_min_position
                         (\<lambda>i. absdiff (expf (real i / 10) a' b' c')
                                       (expf (real am / 10) a' b' c')) 0 am l
                     \<and> fit_sf_tuning_np gauss expf absdiff curve_fit sf_tuning_responses
                           sf_values pref_sf_index
                         = Inr (Fin (of_int pref_sf_index), Fin pref_value,
                                Fin (index_to_sf (real l / 10)), NaN)))))
   \<and> last dense_grid = 4
   \<and> (length sf_values \<noteq> 5 \<longrightarrow> last dense_grid \<noteq> real_of_int (int (length sf_values) - 1))"
proof (intro conjI impI)
  show "dense_grid = map (\<lambda>i. real i / 10) [0..<41]" by (rule dense_grid_eq)
next
  assume h: "1 \<le> pref_sf_index \<and> pref_sf_index < int (length sf_values) - 1
        \<and> gauss_fit_np gauss curve_fit sf_tuning_responses sf_values pref_sf_index
            = Inr (a, x0, sigma)"
  from cut_inds_dense [of "\<lambda>x. gauss x a x0 sigma" absdiff] obtain am where
    fm: "first_max_position (\<lambda>i. gauss (real i / 10) a x0 sigma) 41 am"
    and low: "if am = 0
          then low_cut_ind_np absdiff (map (\<lambda>x. gauss x a x0 sigma) dense_grid) = Inl ValueError
          else \<exists>l. low_cut_ind_np absdiff (map (\<lambda>x. gauss x a x0 sigma) dense_grid) = Inr l
                 \<and> l < 41
                 \<and> first_min_position
                     (\<lambda>i. absdiff (gauss (real i / 10) a x0 sigma)
                                   (gauss (real am / 10) a x0 sigma)) 0 am l"
    and high: "\<exists>h. high_cut_ind_np absdiff (map (\<lambda>x. gauss x a x0 sigma) dense_grid) = Inr h
             \<and> h < 41
             \<and> first_min_position
                 (\<lambda>i. absdiff (gauss (real i / 10) a x0 sigma)
                               (gauss (real am / 10) a x0 sigma)) am 41 h"
    by - (erule exE, (erule conjE)+, rule that)
  show "\<exists>am. first_max_position (\<lambda>i. gauss (real i / 10) a x0 sigma) 41 am
             \<and> (if am = 0 then
                  fit_sf_tuning_np gauss expf absdiff curve_fit sf_tuning_responses sf_values
                      pref_sf_index
                    = Inr (Fin x0, Fin (index_to_sf x0), NaN, NaN)
                else
                  (\<exists>l h.
                     first_min_position
                       (\<lambda>i. absdiff (gauss (real i / 10) a x0 sigma)
                                     (gauss (real am / 10) a x0 sigma)) 0 am l
                     \<and> first_min_position
                         (\<lambda>i. absdiff (gauss (real i / 10) a x0 sigma)
                                       (gauss (real am / 10) a x0 sigma)) am 41 h
                     \<and> fit_sf_tuning_np gauss expf absdiff curve_fit sf_tuning_responses
                           sf_values pref_sf_index
                         = Inr (Fin x0, Fin (index_to_sf x0),
                                (if 0 < l then Fin (index_to_sf (real l / 10)) else NaN),
                                (if l = 0 \<and> h < 4 then Fin (index_to_sf (real h / 10))
                                 else NaN))))"
    (is "\<exists>am. ?FM am \<and> (if am = 0 then ?X else ?Y am)")
  proof (cases "am = 0")
    case True
    then have "?X" using h low by (simp add: fit_sf_tuning_np_def)
    then have c: "?FM am \<and> (if am = 0 then ?X else ?Y am)" using fm True by (simp only: simp_thms if_True)
    show ?thesis by (rule exI) (rule c)
  next
    case False
    then obtain l where l: "low_cut_ind_np absdiff (map (\<lambda>x. gauss x a x0 sigma) dense_grid) = Inr l"
       "l < 41"
       "first_min_position
                     (\<lambda>i. absdiff (gauss (real i / 10) a x0 sigma)
                                   (gauss (real am / 10) a x0 sigma)) 0 am l"
      using low by (simp only: if_False) (elim exE conjE, rule that)
    obtain hh where hh: "high_cut_ind_np absdiff (map (\<lambda>x. gauss x a x0 sigma) dense_grid) = Inr hh"
       "hh < 41"
       "first_min_position
                 (\<lambda>i. absdiff (gauss (real i / 10) a x0 sigma)
                               (gauss (real am / 10) a x0 sigma)) am 41 hh"
      using high by (elim exE conjE) (rule that)
    have "fit_sf_tuning_np gauss expf absdiff curve_fit sf_tuning_responses
                           sf_values pref_sf_index
                         = Inr (Fin x0, Fin (index_to_sf x0),
                                (if 0 < l then Fin (index_to_sf (real l / 10)) else NaN),
                                (if l = 0 \<and> hh < 4 then Fin (index_to_sf (real hh / 10))
                                 else NaN))"
      using h l(1,2) hh(1,2) by (simp add: fit_sf_tuning_np_def dense_grid_nth)
    then have "?Y am" using l(3) hh(3) by (intro exI [of _ l] exI [of _ hh] conjI)
    then have c: "?FM am \<and> (if am = 0 then ?X else ?Y am)" using fm False by (simp only: simp_thms if_False)
    show ?thesis by (rule exI) (rule c)
  qed
next
  assume h: "\<not> (1 \<le> pref_sf_index \<and> pref_sf_index < int (length sf_values) - 1)
        \<and> py_index sf_values pref_sf_index = Inr pref_value
        \<and> exp_fit_np expf curve_fit sf_tuning_responses sf_values = Inr (a', b', c')"
  from cut_inds_dense [of "\<lambda>x. expf x a' b' c'" absdiff] obtain am where
    fm: "first_max_position (\<lambda>i. expf (real i / 10) a' b' c') 41 am"
    and low: "if am = 0
          then low_cut_ind_np absdiff (map (\<lambda>x. expf x a' b' c') dense_grid) = Inl ValueError
          else \<exists>l. low_cut_ind_np absdiff (map (\<lambda>x. expf x a' b' c') dense_grid) = Inr l
                 \<and> l < 41
                 \<and> first_min_position
                     (\<lambda>i. absdiff (expf (real i / 10) a' b' c')
                                   (expf (real am / 10) a' b' c')) 0 am l"
    and high: "\<exists>h. high_cut_ind_np absdiff (map (\<lambda>x. expf x a' b' c') dense_grid) = Inr h
             \<and> h < 41
             \<and> first_min_position
                 (\<lambda>i. absdiff (expf (real i / 10) a' b' c')
                               (expf (real am / 10) a' b' c')) am 41 h"
    by - (erule exE, (erule conjE)+, rule that)
  have branch: "\<not> (1 \<le> pref_sf_index \<and> pref_sf_index < int (length sf_values) - 1)"
    using h by simp
  show "\<exists>am. first_max_position (\<lambda>i. expf (real i / 10) a' b' c') 41 am
             \<and> (if pref_sf_index = 0 then
                  (\<exists>h. first_min_position
                         (\<lambda>i. absdiff (expf (real i / 10) a' b' c')
                                       (expf (real am / 10) a' b' c')) am 41 h
                     \<and> fit_sf_tuning_np gauss expf absdiff curve_fit sf_tuning_responses
                           sf_values pref_sf_index
                         = Inr (Fin 0, Fin pref_value, NaN, Fin (index_to_sf (real h / 10))))
                else if am = 0 then
                  fit_sf_tuning_np gauss expf absdiff curve_fit sf_tuning_responses sf_values
                      pref_sf_index
                    = Inr (Fin (of_int pref_sf_index), Fin pref_value, NaN, NaN)
                else
                  (\<exists>l. first_min_position
                         (\<lambda>i. absdiff (expf (real i / 10) a' b' c')
                                       (expf (real am / 10) a' b' c')) 0 am l
                     \<and> fit_sf_tuning_np gauss expf absdiff curve_fit sf_tuning_responses
                           sf_values pref_sf_index
                         = Inr (Fin (of_int pref_sf_index), Fin pref_value,
                                Fin (index_to_sf (real l / 10)), NaN)))"
    (is "\<exists>am. ?FM am \<and> (if pref_sf_index = 0 then ?H am else if am = 0 then ?X else ?Y am)")
  proof (cases "pref_sf_index = 0")
    case True
    obtain hh where hh: "high_cut_ind_np absdiff (map (\<lambda>x. expf x a' b' c') dense_grid) = Inr hh"
       "hh < 41"
       "first_min_position
                 (\<lambda>i. absdiff (expf (real i / 10) a' b' c')
                               (expf (real am / 10) a' b' c')) am 41 hh"
      using high by (elim exE conjE) (rule that)
    have "fit_sf_tuning_np gauss expf absdiff curve_fit sf_tuning_responses
                           sf_values pref_sf_index
                         = Inr (Fin 0, Fin pref_value, NaN, Fin (index_to_sf (real hh / 10)))"
      using h True hh(1,2) by (simp add: fit_sf_tuning_np_def dense_grid_nth)
    then have "?H am" using hh(3) by (intro exI [of _ hh] conjI)
    then have c: "?FM am \<and> (if pref_sf_index = 0 then ?H am else if am = 0 then ?X else ?Y am)"
      using fm True by (simp only: simp_thms if_True)
    show ?thesis by (rule exI) (rule c)
  next
    case nz: False
    show ?thesis
    proof (cases "am = 0")
      case True
      then have "?X" using h nz low branch
        by (cases "1 \<le> pref_sf_index") (simp_all add: fit_sf_tuning_np_def)
      then have c: "?FM am \<and> (if pref_sf_index = 0 then ?H am else if am = 0 then ?X else ?Y am)"
        using fm True nz by (simp only: simp_thms if_True if_False)
      show ?thesis by (rule exI) (rule c)
    next
      case False
      then obtain l where l: "low_cut_ind_np absdiff (map (\<lambda>x. expf x a' b' c') dense_grid) = Inr l"
         "l < 41"
         "first_min_position
                     (\<lambda>i. absdiff (expf (real i / 10) a' b' c')
                                   (expf (real am / 10) a' b' c')) 0 am l"
        using low by (simp only: if_False) (elim exE conjE, rule that)
      have "fit_sf_tuning_np gauss expf absdiff curve_fit sf_tuning_responses
                           sf_values pref_sf_index
                         = Inr (Fin (of_int pref_sf_index), Fin pref_value,
                                Fin (index_to_sf (real l / 10)), NaN)"
        using h nz l(1,2) branch
        by (cases "1 \<le> pref_sf_index") (simp_all add: fit_sf_tuning_np_def dense_grid_nth)
      then have "?Y am" using l(3) by (intro exI [of _ l] conjI)
      then have c: "?FM am \<and> (if pref_sf_index = 0 then ?H am else if am = 0 then ?X else ?Y am)"
        using fm False nz by (simp only: simp_thms if_False)
      show ?thesis by (rule exI) (rule c)
    qed
  qed
next
  show "last dense_grid = 4" by (rule last_dense_grid)
next
  assume "length sf_values \<noteq> 5"
  then show "last dense_grid \<noteq> real_of_int (int (length sf_values) - 1)"
    by (simp add: last_dense_grid)
qed

theorem fit_sf_tuning_dense_grid_witness:
  "(1 \<le> (2::int) \<and> (2::int) < int (length seven_sf_values) - 1
        \<and> gauss_fit_np gauss_function constant_fit [1, 2, 3, 2, 1, 1, 1] seven_sf_values (2::int)
            = Inr (1, 2, 1))
   \<and> (\<exists>am. first_max_position (\<lambda>i. gauss_function (real i / 10) 1 2 1) 41 am
             \<and> (if am = 0 then
                  fit_sf_tuning_np gauss_function exp_function exact_absdiff constant_fit
                      [1, 2, 3, 2, 1, 1, 1] seven_sf_values 2
                    = Inr (Fin 2, Fin (index_to_sf 2), NaN, NaN)
                else
                  (\<exists>l h.
                     first_min_position
                       (\<lambda>i. exact_absdiff (gauss_function (real i / 10) 1 2 1)
                                     (gauss_function (real am / 10) 1 2 1)) 0 am l
                     \<and> first_min_position
                         (\<lambda>i. exact_absdiff (gauss_function (real i / 10) 1 2 1)
                                       (gauss_function (real am / 10) 1 2 1)) am 41 h
                     \<and> fit_sf_tuning_np gauss_function exp_function exact_absdiff constant_fit
                      [1, 2, 3, 2, 1, 1, 1] seven_sf_values 2
                         = Inr (Fin 2, Fin (index_to_sf 2),
                                (if 0 < l then Fin (index_to_sf (real l / 10)) else NaN),
                                (if l = 0 \<and> h < 4 then Fin (index_to_sf (real h / 10))
                                 else NaN)))))
   \<and> (\<not> (1 \<le> (0::int) \<and> (0::int) < int (length seven_sf_values) - 1)
        \<and> py_index seven_sf_values (0::int) = Inr 0.02
        \<and> exp_fit_np exp_function constant_fit [1, 2, 3, 2, 1, 1, 1] seven_sf_values = Inr (1, 2, 1))
   \<and> (\<exists>am. first_max_position (\<lambda>i. exp_function (real i / 10) 1 2 1) 41 am
             \<and> (if (0::int) = 0 then
                  (\<exists>h. first_min_position
                         (\<lambda>i. exact_absdiff (exp_function (real i / 10) 1 2 1)
                                       (exp_function (real am / 10) 1 2 1)) am 41 h
                     \<and> fit_sf_tuning_np gauss_function exp_function exact_absdiff constant_fit
                      [1, 2, 3, 2, 1, 1, 1] seven_sf_values 0
                         = Inr (Fin 0, Fin 0.02, NaN, Fin (index_to_sf (real h / 10))))
                else if am = 0 then
                  fit_sf_tuning_np gauss_function exp_function exact_absdiff constant_fit
                      [1, 2, 3, 2, 1, 1, 1] seven_sf_values 0
                    = Inr (Fin (of_int (0::int)), Fin 0.02, NaN, NaN)
                else
                  (\<exists>l. first_min_position
                         (\<lambda>i. exact_absdiff (exp_function (real i / 10) 1 2 1)
                                       (exp_function (real am / 10) 1 2 1)) 0 am l
                     \<and> fit_sf_tuning_np gauss_function exp_function exact_absdiff constant_fit
                      [1, 2, 3, 2, 1, 1, 1] seven_sf_values 0
                         = Inr (Fin (of_int (0::int)), Fin 0.02,
                                Fin (index_to_sf (real l / 10)), NaN))))
   \<and> (\<not> (1 \<le> (6::int) \<and> (6::int) < int (length seven_sf_values) - 1)
        \<and> py_index seven_sf_values (6::int) = Inr 1.28
        \<and> exp_fit_np exp_function constant_fit [1, 2, 3, 2, 1, 1, 1] seven_sf_values = Inr (1, 2, 1))
   \<and> (\<exists>am. first_max_position (\<lambda>i. exp_function (real i / 10) 1 2 1) 41 am
             \<and> (if (6::int) = 0 then
                  (\<exists>h. first_min_position
                         (\<lambda>i. exact_absdiff (exp_function (real i / 10) 1 2 1)
                                       (exp_function (real am / 10) 1 2 1)) am 41 h
                     \<and> fit_sf_tuning_np gauss_function exp_function exact_absdiff constant_fit
                      [1, 2, 3, 2, 1, 1, 1] seven_sf_values 6
                         = Inr (Fin 0, Fin 1.28, NaN, Fin (index_to_sf (real h / 10))))
                else if am = 0 then
                  fit_sf_tuning_np gauss_function exp_function exact_absdiff constant_fit
                      [1, 2, 3, 2, 1, 1, 1] seven_sf_values 6
                    = Inr (Fin (of_int (6::int)), Fin 1.28, NaN, NaN)
                else
                  (\<exists>l. first_min_position
                         (\<lambda>i. exact_absdiff (exp_function (real i / 10) 1 2 1)
                                       (exp_function (real am / 10) 1 2 1)) 0 am l
                     \<and> fit_sf_tuning_np gauss_function exp_function exact_absdiff constant_fit
                      [1, 2, 3, 2, 1, 1, 1] seven_sf_values 6
                         = Inr (Fin (of_int (6::int)), Fin 1.28,
                                Fin (index_to_sf (real l / 10)), NaN))))
   \<and> length seven_sf_values \<noteq> 5
   \<and> last dense_grid \<noteq> real_of_int (int (length seven_sf_values) - 1)"
proof -
  note t1 = fit_sf_tuning_dense_grid [where pref_sf_index = 2 and pref_value = 0 and
      gauss = gauss_function and expf = exp_function and absdiff = exact_absdiff
      and curve_fit = constant_fit and sf_tuning_responses = "[1, 2, 3, 2, 1, 1, 1]"
      and sf_values = seven_sf_values and a = 1 and ?x0.0 = 2 and sigma = 1
      and a' = 1 and b' = 2 and c' = 1]
  note t2 = fit_sf_tuning_dense_grid [where pref_sf_index = 0 and pref_value = "0.02" and
      gauss = gauss_function and expf = exp_function and absdiff = exact_absdiff
      and curve_fit = constant_fit and sf_tuning_responses = "[1, 2, 3, 2, 1, 1, 1]"
      and sf_values = seven_sf_values and a = 1 and ?x0.0 = 2 and sigma = 1
      and a' = 1 and b' = 2 and c' = 1]
  note t3 = fit_sf_tuning_dense_grid [where pref_sf_index = 6 and pref_value = "1.28" and
      gauss = gauss_function and expf = exp_function and absdiff = exact_absdiff
      and curve_fit = constant_fit and sf_tuning_responses = "[1, 2, 3, 2, 1, 1, 1]"
      and sf_values = seven_sf_values and a = 1 and ?x0.0 = 2 and sigma = 1
      and a' = 1 and b' = 2 and c' = 1]
  have h1: "1 \<le> (2::int) \<and> (2::int) < int (length seven_sf_values) - 1
        \<and> gauss_fit_np gauss_function constant_fit [1, 2, 3, 2, 1, 1, 1] seven_sf_values (2::int)
            = Inr (1, 2, 1)"
    by (simp add: gauss_fit_np_def np_amax_def constant_fit_def seven_sf_values_def)
  have h2: "\<not> (1 \<le> (0::int) \<and> (0::int) < int (length seven_sf_values) - 1)
        \<and> py_index seven_sf_values (0::int) = Inr 0.02
        \<and> exp_fit_np exp_function constant_fit [1, 2, 3, 2, 1, 1, 1] seven_sf_values = Inr (1, 2, 1)"
    by (simp add: exp_fit_np_def np_amax_def np_amin_def constant_fit_def seven_sf_values_def
        py_index_def)
  have h3: "\<not> (1 \<le> (6::int) \<and> (6::int) < int (length seven_sf_values) - 1)
        \<and> py_index seven_sf_values (6::int) = Inr 1.28
        \<and> exp_fit_np exp_function constant_fit [1, 2, 3, 2, 1, 1, 1] seven_sf_values = Inr (1, 2, 1)"
    by (simp add: exp_fit_np_def np_amax_def np_amin_def constant_fit_def seven_sf_values_def
        py_index_def)
  have h4: "length seven_sf_values \<noteq> 5" by (simp add: seven_sf_values_def)
  note c1 = t1 [THEN conjunct2, THEN conjunct1, THEN mp, OF h1]
  note c2 = t2 [THEN conjunct2, THEN conjunct2, THEN conjunct1, THEN mp, OF h2]
  note c3 = t3 [THEN conjunct2, THEN conjunct2, THEN conjunct1, THEN mp, OF h3]
  note c4 = t1 [THEN conjunct2, THEN conjunct2, THEN conjunct2, THEN conjunct2, THEN mp, OF h4]
  show ?thesis
    by (rule conjI [OF h1 conjI [OF c1 conjI [OF h2 conjI [OF c2 conjI [OF h3 conjI [OF c3
          conjI [OF h4 c4]]]]]]])
qed

text \<open>
  The claim as stated fails on the high side: index 4, the last grid value, is not what
  the interior branch compares with.  For the exact fit \<open>(1, 1, 1)\<close> of five responses
  the low crossing is sample 0 and the high crossing is a sample \<open>h\<close> with \<open>4 \<le> h < 40\<close>,
  strictly below the last sample 40 (index 4.0), and no high cutoff is reported.
\<close>

lemma early_gauss_nth: "i < 41 \<Longrightarrow> early_gauss ! i = exp (- (real i / 10 - 1)\<^sup>2 / 2)"
  by (simp add: early_gauss_def dense_grid_eq gauss_function_def)

lemma length_early_gauss: "length early_gauss = 41"
  by (simp add: early_gauss_def length_dense_grid)

lemma early_gauss_peak:
  assumes "i < 41" and "i \<noteq> 10" shows "early_gauss ! i < early_gauss ! 10"
proof -
  have "real i / 10 - 1 \<noteq> 0" using assms(2) by auto
  then have "0 < (real i / 10 - 1)\<^sup>2" by simp
  then have "exp (- (real i / 10 - 1)\<^sup>2 / 2) < exp 0" by (subst exp_less_cancel_iff) simp
  then show ?thesis using assms(1) by (simp add: early_gauss_nth)
qed

lemma early_gauss_argmax: "np_argmax early_gauss = Inr 10"
  by (rule np_argmax_eqI) (simp_all add: length_early_gauss early_gauss_peak)

lemma early_gauss_Max: "Max (set early_gauss) = 1"
proof -
  have "early_gauss ! i \<le> early_gauss ! 10" if "i < 41" for i
    using early_gauss_peak [OF that] by (cases "i = 10") simp_all
  then have "Max (set early_gauss) = early_gauss ! 10"
    by (intro Max_eq_nth) (simp_all add: length_early_gauss)
  then show ?thesis by (simp add: early_gauss_nth)
qed

lemma early_gauss_dist_nth:
  "i < 41 \<Longrightarrow> half_max_dist early_gauss ! i = \<bar>exp (- (real i / 10 - 1)\<^sup>2 / 2) - 1 / 2\<bar>"
  by (simp add: half_max_dist_def early_gauss_Max length_early_gauss early_gauss_nth)

lemma exp_minus_half_gt: "1 / 2 < exp (- (1 / 2) :: real)"
proof -
  have "exp (1 / 2 :: real) < 2"
  proof (rule ccontr)
    assume "\<not> exp (1 / 2 :: real) < 2"
    then have "(2::real) \<le> exp (1 / 2)" by simp
    then have "(2::real) * 2 \<le> exp (1 / 2) * exp (1 / 2)" by (intro mult_mono) simp_all
    then have "(4::real) \<le> exp 1" by (simp flip: exp_add)
    moreover have "exp (1::real) \<le> 3" by (rule exp_le)
    ultimately show False by simp
  qed
  then have "inverse (2::real) < inverse (exp (1 / 2))"
    by (intro less_imp_inverse_less) simp_all
  then show ?thesis by (simp add: exp_minus)
qed

lemma np_argmin_zero:
  assumes "xs \<noteq> []" and "\<And>i. i < length xs \<Longrightarrow> xs ! 0 \<le> xs ! i"
  shows "np_argmin xs = Inr 0"
proof -
  have "Min (set xs) = xs ! 0"
  proof (rule Min_eqI)
    show "finite (set xs)" by simp
    show "xs ! 0 \<in> set xs" using assms(1) by simp
    fix y assume "y \<in> set xs"
    then obtain i where "i < length xs" "y = xs ! i" by (auto simp: in_set_conv_nth)
    then show "xs ! 0 \<le> y" using assms(2) by simp
  qed
  then have "takeWhile (\<lambda>y. y \<noteq> Min (set xs)) xs = []"
    using assms(1) by (cases xs) simp_all
  then show ?thesis using assms(1) by (simp add: np_argmin_def)
qed

lemma early_gauss_low: "low_cut_ind early_gauss = Inr 0"
proof -
  define xs where "xs = take 10 (half_max_dist early_gauss)"
  have len: "length xs = 10" by (simp add: xs_def half_max_dist_def length_early_gauss)
  have nth: "xs ! i = \<bar>exp (- (real i / 10 - 1)\<^sup>2 / 2) - 1 / 2\<bar>" if "i < 10" for i
    using that by (simp add: xs_def early_gauss_dist_nth)
  have ge: "exp (- (1 / 2) :: real) \<le> exp (- (real i / 10 - 1)\<^sup>2 / 2)" if "i < 10" for i
  proof -
    have "\<bar>real i / 10 - 1\<bar> \<le> 1" using that by simp
    then have "(real i / 10 - 1)\<^sup>2 \<le> 1" by (simp add: abs_square_le_1)
    then show ?thesis by simp
  qed
  have "xs ! 0 \<le> xs ! i" if "i < length xs" for i
  proof -
    have i: "i < 10" using that len by simp
    have "xs ! 0 = exp (- (1 / 2)) - 1 / 2"
      using exp_minus_half_gt by (simp add: nth power2_eq_square)
    moreover have "xs ! i = exp (- (real i / 10 - 1)\<^sup>2 / 2) - 1 / 2"
      using ge [OF i] exp_minus_half_gt unfolding nth [OF i] by linarith
    ultimately show ?thesis using ge [OF i] by simp
  qed
  moreover have "xs \<noteq> []" using len by auto
  ultimately have "np_argmin xs = Inr 0" by (intro np_argmin_zero)
  then show ?thesis by (simp add: low_cut_ind_def early_gauss_argmax xs_def)
qed

lemma exp_minus_nine_halves_le: "exp (- (9 / 2) :: real) \<le> 1 / 4"
proof -
  have "exp (- (9 / 2) :: real) \<le> exp (- 2)" by simp
  then show ?thesis using exp_minus_two_le by linarith
qed

lemma early_gauss_high: "\<exists>h. high_cut_ind early_gauss = Inr h \<and> 10 \<le> h \<and> h < 40"
proof -
  define ys where "ys = drop 10 (half_max_dist early_gauss)"
  have len: "length ys = 31" by (simp add: ys_def half_max_dist_def length_early_gauss)
  then have "ys \<noteq> []" by auto
  then obtain k where k: "np_argmin ys = Inr k" by (auto simp: np_argmin_def)
  then have p: "k < length ys" using np_argmin_bound by blast
  have "half_max_dist early_gauss ! 20 < half_max_dist early_gauss ! 40"
    using exp_minus_nine_halves_le exp_minus_half_bounds
    by (simp add: early_gauss_dist_nth power2_eq_square)
  then have "ys ! 10 < ys ! 30"
    by (simp add: ys_def half_max_dist_def length_early_gauss)
  then have "k \<noteq> 30" using argmin_not_at [OF k, of 10 30] len by simp
  then have "k < 30" using p len by simp
  then show ?thesis using k by (simp add: high_cut_ind_def early_gauss_argmax ys_def)
qed

theorem fit_sf_tuning_high_side_counterexample:
  "fit_sf_tuning (\<lambda>f xs ys p n. Inr (1, 1, 1))
       [exp (- (1 / 2)), 1, exp (- (1 / 2)), exp (- 2), exp (- (9 / 2))]
       [0.02, 0.04, 0.08, 0.16, 0.32] 1
     = Inr (Fin 1, Fin 0.04, NaN, NaN)
   \<and> low_cut_ind early_gauss = Inr 0
   \<and> (case high_cut_ind early_gauss of Inl e \<Rightarrow> False | Inr h \<Rightarrow> 4 \<le> h \<and> h < 40)"
proof -
  obtain h where h: "high_cut_ind early_gauss = Inr h" "10 \<le> h" "h < 40"
    using early_gauss_high by blast
  have fit: "gauss_fit (\<lambda>f xs ys p n. Inr (1, 1, 1))
          [exp (- (1 / 2)), 1, exp (- (1 / 2)), exp (- 2), exp (- (9 / 2))]
          [0.02, 0.04, 0.08, 0.16, 0.32] 1 = Inr (1, 1, 1)"
    by (simp add: gauss_fit_def np_amax_def)
  have "fit_sf_tuning (\<lambda>f xs ys p n. Inr (1, 1, 1))
       [exp (- (1 / 2)), 1, exp (- (1 / 2)), exp (- 2), exp (- (9 / 2))]
       [0.02, 0.04, 0.08, 0.16, 0.32] 1
     = Inr (Fin 1, Fin 0.04, NaN, NaN)"
    using early_gauss_low h fit
    by (simp add: fit_sf_tuning_def early_gauss_def [symmetric] index_to_sf_def)
  then show ?thesis using early_gauss_low h by simp
qed

text \<open>
  C8.  With a strictly interior preferred index, a Gaussian fit that raises (whatever the
  exception: non-convergence, a numerical error, or \<open>np.amax\<close> on empty responses) makes
  \<open>fit_sf_tuning\<close> return normally, with all four outputs NaN.
\<close>

theorem fit_sf_tuning_gauss_failure_all_nan:
  assumes "1 \<le> pref_sf_index" and "pref_sf_index < int (length sf_values) - 1"
    and "gauss_fit curve_fit sf_tuning_responses sf_values pref_sf_index = Inl e"
  shows "fit_sf_tuning curve_fit sf_tuning_responses sf_values pref_sf_index
           = Inr (NaN, NaN, NaN, NaN)"
  using assms by (simp add: fit_sf_tuning_def)

theorem fit_sf_tuning_gauss_failure_witness:
  "(1::int) \<le> 1 \<and> (1::int) < int (length [0.02, 0.04, 0.08::real]) - 1
   \<and> gauss_fit (\<lambda>f xs ys p n. Inl RuntimeError) [1, 3, 2] [0.02, 0.04, 0.08] 1
       = Inl RuntimeError
   \<and> fit_sf_tuning (\<lambda>f xs ys p n. Inl RuntimeError) [1, 3, 2] [0.02, 0.04, 0.08] 1
       = Inr (NaN, NaN, NaN, NaN)"
proof -
  have g: "gauss_fit (\<lambda>f xs ys p n. Inl RuntimeError) [1, 3, 2] [0.02, 0.04, 0.08] 1
             = Inl RuntimeError"
    by (simp add: gauss_fit_def np_amax_def)
  have i: "(1::int) < int (length [0.02, 0.04, 0.08::real]) - 1" by simp
  show ?thesis
    using fit_sf_tuning_gauss_failure_all_nan [OF order_refl i g] g by simp
qed

text \<open>
  C7.  With preferred index 0 on a non-empty axis, the preferred index is reported as 0,
  the preferred value as the raw \<open>sf_values[0]\<close>, and the low cutoff as NaN, whatever the
  exponential fit does.
\<close>

theorem fit_sf_tuning_pref_zero:
  assumes "sf_values \<noteq> []"
  shows "\<exists>high. fit_sf_tuning curve_fit sf_tuning_responses sf_values 0
           = Inr (Fin 0, Fin (sf_values ! 0), NaN, high)"
  using assms
  by (simp add: fit_sf_tuning_def py_index_def Let_def split: sum.splits prod.splits)

theorem fit_sf_tuning_pref_zero_witness:
  "[0.02, 0.04, 0.08::real] \<noteq> []
   \<and> (\<exists>high. fit_sf_tuning (\<lambda>f xs ys p n. Inr (3, 1, 0)) [3, 2, 1] [0.02, 0.04, 0.08] 0
         = Inr (Fin 0, Fin ([0.02, 0.04, 0.08] ! 0), NaN, high))"
  using fit_sf_tuning_pref_zero [of "[0.02, 0.04, 0.08]" "\<lambda>f xs ys p n. Inr (3, 1, 0)" "[3, 2, 1]"]
  by simp

section \<open>Properties of the discrimination index\<close>

lemma foldl_np_add_Fin:
  "foldl np_add (Fin a) (map (\<lambda>x. Fin (f x)) xs) = Fin (a + sum_list (map f xs))"
  by (induction xs arbitrary: a) (simp_all add: algebra_simps)

lemma np_sum_Fin: "np_sum (map (\<lambda>x. Fin (f x)) xs) = Fin (sum_list (map f xs))"
  by (simp add: np_sum_def foldl_np_add_Fin)

lemma foldl_np_add_NaN: "foldl np_add NaN xs = NaN"
  by (induction xs) simp_all

lemma foldl_np_add_PInf: "foldl np_add PInf (map (\<lambda>x. PInf) xs) = PInf"
  by (induction xs) simp_all

text \<open>
  The sum of the squared deviations from any float mean: a non-negative number, or an
  infinity or NaN when the mean is one.
\<close>

lemma squared_deviations:
  "np_sum (map (\<lambda>x. np_square (np_sub (Fin x) m)) t) = NaN
   \<or> np_sum (map (\<lambda>x. np_square (np_sub (Fin x) m)) t) = PInf
   \<or> (\<exists>S\<ge>0. np_sum (map (\<lambda>x. np_square (np_sub (Fin x) m)) t) = Fin S)"
proof (cases t)
  case Nil
  then show ?thesis by (simp add: np_sum_def)
next
  case (Cons y ys)
  show ?thesis
  proof (cases m)
    case (Fin a)
    have "np_sum (map (\<lambda>x. np_square (np_sub (Fin x) m)) t)
            = np_sum (map (\<lambda>x. Fin ((x - a)\<^sup>2)) t)"
      using Fin by (simp add: np_square_def np_sub_def power2_eq_square)
    also have "\<dots> = Fin (sum_list (map (\<lambda>x. (x - a)\<^sup>2) t))"
      by (rule np_sum_Fin)
    finally have "np_sum (map (\<lambda>x. np_square (np_sub (Fin x) m)) t)
                    = Fin (sum_list (map (\<lambda>x. (x - a)\<^sup>2) t))" .
    moreover have "0 \<le> sum_list (map (\<lambda>x. (x - a)\<^sup>2) t)"
      by (rule sum_list_nonneg) auto
    ultimately show ?thesis by blast
  next
    case PInf
    then have "map (\<lambda>x. np_square (np_sub (Fin x) m)) t = map (\<lambda>x. PInf) t"
      by (simp add: np_square_def np_sub_def signed_inf_def)
    then have "np_sum (map (\<lambda>x. np_square (np_sub (Fin x) m)) t) = np_sum (map (\<lambda>x. PInf) t)"
      by (rule arg_cong)
    also have "\<dots> = PInf" using Cons by (simp add: np_sum_def foldl_np_add_PInf)
    finally show ?thesis by simp
  next
    case NInf
    then have "map (\<lambda>x. np_square (np_sub (Fin x) m)) t = map (\<lambda>x. PInf) t"
      by (simp add: np_square_def np_sub_def signed_inf_def)
    then have "np_sum (map (\<lambda>x. np_square (np_sub (Fin x) m)) t) = np_sum (map (\<lambda>x. PInf) t)"
      by (rule arg_cong)
    also have "\<dots> = PInf" using Cons by (simp add: np_sum_def foldl_np_add_PInf)
    finally show ?thesis by simp
  next
    case NaN
    then show ?thesis
      using Cons by (simp add: np_sum_def np_square_def np_sub_def foldl_np_add_NaN)
  qed
qed

lemma sfdi_of_sse:
  assumes "sf_tuning_responses \<noteq> []"
    and "np_sum (map (\<lambda>x. np_square (np_sub (Fin x) (np_mean mean t))) t) = S"
  shows "get_sfdi mean sf_tuning_responses t bias =
           (let r = Max (set sf_tuning_responses) - Min (set sf_tuning_responses)
            in Inr (np_div (Fin r) (np_add (Fin r) (np_mul (Fin 2)
                 (np_sqrt (np_div S (Fin (of_int (int (length t) - bias)))))))))"
  using assms by (simp add: get_sfdi_def np_ptp_def Let_def)

text \<open>
  C5 (as amended).  With no more trial values than the bias term, \<open>get_sfdi\<close> raises no
  error on non-empty responses: it returns NaN, 0.0 or 1.0, whatever the float mean of
  the trial values is.
\<close>

theorem get_sfdi_few_trials_returns:
  assumes "sf_tuning_responses \<noteq> []"
    and "int (length mean_sweeps_trials) \<le> bias"
  shows "get_sfdi mean sf_tuning_responses mean_sweeps_trials bias
           \<in> {Inr NaN, Inr (Fin 0), Inr (Fin 1)}"
proof -
  define T where "T = np_sum (map (\<lambda>x. np_square (np_sub (Fin x)
    (np_mean mean mean_sweeps_trials))) mean_sweeps_trials)"
  define d :: real where "d = of_int (int (length mean_sweeps_trials) - bias)"
  define r where "r = Max (set sf_tuning_responses) - Min (set sf_tuning_responses)"
  have d: "d \<le> 0" using assms(2) by (simp add: d_def)
  have eq: "get_sfdi mean sf_tuning_responses mean_sweeps_trials bias
              = Inr (np_div (Fin r) (np_add (Fin r) (np_mul (Fin 2)
                  (np_sqrt (np_div T (Fin d))))))"
    using sfdi_of_sse [OF assms(1) T_def [symmetric]] by (simp add: d_def r_def Let_def)
  consider (nan) "T = NaN" | (pinf) "T = PInf" | (fin) S where "T = Fin S" "0 \<le> S"
    using squared_deviations [of "np_mean mean mean_sweeps_trials" mean_sweeps_trials]
    unfolding T_def by blast
  then show ?thesis
  proof cases
    case nan
    then show ?thesis by (simp add: eq)
  next
    case pinf
    then show ?thesis using d by (cases "d = 0") (simp_all add: eq signed_inf_def)
  next
    case (fin S)
    consider (zero) "d = 0" "S = 0" | (inf) "d = 0" "0 < S" | (neg) "d < 0" "0 < S"
      | (flat) "d < 0" "S = 0"
      using d fin(2) by fastforce
    then show ?thesis
    proof cases
      case zero
      then show ?thesis by (simp add: eq fin(1))
    next
      case inf
      then show ?thesis by (simp add: eq fin(1) signed_inf_def)
    next
      case neg
      then have "S / d < 0" by (simp add: divide_pos_neg)
      with neg show ?thesis by (simp add: eq fin(1))
    next
      case flat
      then show ?thesis by (simp add: eq fin(1))
    qed
  qed
qed

theorem get_sfdi_few_trials_witness:
  "[1, 2::real] \<noteq> [] \<and> int (length [1, 2, 3::real]) \<le> 5
   \<and> get_sfdi exact_mean [1, 2] [1, 2, 3] 5 \<in> {Inr NaN, Inr (Fin 0), Inr (Fin 1)}"
  using get_sfdi_few_trials_returns [of "[1, 2]" "[1, 2, 3]" 5 exact_mean] by simp

text \<open>
  The claim as stated fails: three trial values (whose float mean 2.0 is exact) against
  the default bias of 5 give a negative quotient under the square root, and the call
  returns NaN instead of raising.
\<close>

theorem get_sfdi_few_trials_counterexample:
  "int (length [1, 2, 3::real]) \<le> 5 \<and> get_sfdi exact_mean [1, 2] [1, 2, 3] 5 = Inr NaN"
  by (simp add: get_sfdi_def np_ptp_def np_mean_def exact_mean_def np_sum_def np_square_def
      np_sub_def)





section \<open>Properties of dimension discovery\<close>

text \<open>
  C2 (the code departs from it).  On a freshly constructed object, for every stimulus
  table, the property \<open>number_phase\<close> runs the discovery and still returns \<open>None\<close>, while
  the phase axis is cached and the two other counts are set.
\<close>

theorem number_phase_returns_None:
  "fst (number_phase (StaticGratings tbl stats)) = None
   \<and> fst (phasevals (snd (number_phase (StaticGratings tbl stats))))
       = Some (axis_values Phase tbl)
   \<and> fst (number_ori (snd (number_phase (StaticGratings tbl stats))))
       = Some (length (axis_values Ori tbl))
   \<and> fst (number_sf (snd (number_phase (StaticGratings tbl stats))))
       = Some (length (axis_values SF tbl))"
  by (simp add: number_phase_def phasevals_def number_ori_def number_sf_def
      get_stim_table_stats_def StaticGratings_def Let_def)


lemma StaticGratings_cache_ok: "cache_ok (StaticGratings tbl stats)"
  by (simp add: cache_ok_def StaticGratings_def)

lemma get_stim_table_stats_tables:
  "stimulus_conditions (get_stim_table_stats self) = stimulus_conditions self"
  "conditionwise_statistics (get_stim_table_stats self) = conditionwise_statistics self"
  "cache_ok (get_stim_table_stats self)"
  by (simp_all add: get_stim_table_stats_def cache_ok_def Let_def)

lemma sfvals_cached:
  assumes "cache_ok self"
  shows "fst (sfvals self) = Some (axis_values SF (stimulus_conditions self))"
    and "stimulus_conditions (snd (sfvals self)) = stimulus_conditions self"
    and "conditionwise_statistics (snd (sfvals self)) = conditionwise_statistics self"
    and "cache_ok (snd (sfvals self))"
  using assms
  by (auto simp: sfvals_def Let_def get_stim_table_stats_tables)
     (auto simp: get_stim_table_stats_def cache_ok_def Let_def)

lemma orivals_cached:
  assumes "cache_ok self"
  shows "fst (orivals self) = Some (axis_values Ori (stimulus_conditions self))"
    and "stimulus_conditions (snd (orivals self)) = stimulus_conditions self"
    and "conditionwise_statistics (snd (orivals self)) = conditionwise_statistics self"
    and "cache_ok (snd (orivals self))"
  using assms
  by (auto simp: orivals_def Let_def get_stim_table_stats_tables)
     (auto simp: get_stim_table_stats_def cache_ok_def Let_def)

lemma phasevals_cached:
  assumes "cache_ok self"
  shows "fst (phasevals self) = Some (axis_values Phase (stimulus_conditions self))"
    and "stimulus_conditions (snd (phasevals self)) = stimulus_conditions self"
    and "conditionwise_statistics (snd (phasevals self)) = conditionwise_statistics self"
    and "cache_ok (snd (phasevals self))"
  using assms
  by (auto simp: phasevals_def Let_def get_stim_table_stats_tables)
     (auto simp: get_stim_table_stats_def cache_ok_def Let_def)

lemma get_pref_sf_cached:
  assumes "cache_ok self"
  shows "fst (get_pref_sf mean self unit_id)
           = get_pref mean SF (axis_values SF (stimulus_conditions self)) (stimulus_conditions self)
               (conditionwise_statistics self) unit_id"
    and "stimulus_conditions (snd (get_pref_sf mean self unit_id)) = stimulus_conditions self"
    and "conditionwise_statistics (snd (get_pref_sf mean self unit_id))
           = conditionwise_statistics self"
    and "cache_ok (snd (get_pref_sf mean self unit_id))"
  using sfvals_cached [OF assms]
  by (auto simp: get_pref_sf_def split: prod.splits option.splits)

lemma get_pref_ori_cached:
  assumes "cache_ok self"
  shows "fst (get_pref_ori mean self unit_id)
           = get_pref mean Ori (axis_values Ori (stimulus_conditions self)) (stimulus_conditions self)
               (conditionwise_statistics self) unit_id"
  using orivals_cached [OF assms]
  by (auto simp: get_pref_ori_def split: prod.splits option.splits)

lemma get_pref_phase_cached:
  assumes "cache_ok self"
  shows "fst (get_pref_phase mean self unit_id)
           = get_pref mean Phase (axis_values Phase (stimulus_conditions self))
               (stimulus_conditions self) (conditionwise_statistics self) unit_id"
  using phasevals_cached [OF assms]
  by (auto simp: get_pref_phase_def split: prod.splits option.splits)

lemma np_less_irrefl: "\<not> np_less x x"
  by (cases x) simp_all

lemma np_less_asym: "np_less x y \<Longrightarrow> \<not> np_less y x"
  by (cases x; cases y) simp_all

lemma np_less_negtrans:
  "\<not> np_less x y \<Longrightarrow> \<not> np_less y z \<Longrightarrow> y \<noteq> NaN \<Longrightarrow> \<not> np_less x z"
  by (cases x; cases y; cases z) simp_all

lemma nanargmax_no_NaN:
  "xs \<noteq> [] \<Longrightarrow> NaN \<notin> set xs \<Longrightarrow>
     \<exists>k. nanargmax xs = Some k \<and> k < length xs
       \<and> (\<forall>j<length xs. \<not> np_less (xs ! k) (xs ! j)) \<and> (\<forall>j<k. np_less (xs ! j) (xs ! k))"
proof (induction xs)
  case Nil
  then show ?case by simp
next
  case (Cons x xs)
  have x: "x \<noteq> NaN" using Cons.prems(2) by auto
  show ?case
  proof (cases "xs = []")
    case True
    then show ?thesis using x by (simp add: np_less_irrefl)
  next
    case False
    then obtain k where k: "nanargmax xs = Some k" "k < length xs"
      "\<forall>j<length xs. \<not> np_less (xs ! k) (xs ! j)" "\<forall>j<k. np_less (xs ! j) (xs ! k)"
      using Cons.IH Cons.prems(2) by auto
    have kn: "xs ! k \<noteq> NaN" using k(2) Cons.prems(2) by (metis list.set_intros(2) nth_mem)
    show ?thesis
    proof (cases "np_less x (xs ! k)")
      case True
      then have "nanargmax (x # xs) = Some (Suc k)" using k(1) by simp
      moreover have "\<forall>j<length (x # xs). \<not> np_less ((x # xs) ! Suc k) ((x # xs) ! j)"
        using True k(3) by (auto simp: nth_Cons np_less_asym split: nat.splits)
      moreover have "\<forall>j<Suc k. np_less ((x # xs) ! j) ((x # xs) ! Suc k)"
        using True k(4) by (auto simp: nth_Cons split: nat.splits)
      ultimately show ?thesis using k(2) by auto
    next
      case False
      then have "nanargmax (x # xs) = Some 0" using k(1) x by simp
      moreover have "\<forall>j<length (x # xs). \<not> np_less ((x # xs) ! 0) ((x # xs) ! j)"
      proof (intro allI impI)
        fix j assume "j < length (x # xs)"
        then show "\<not> np_less ((x # xs) ! 0) ((x # xs) ! j)"
          using False k(3) kn np_less_negtrans [of x "xs ! k"]
          by (cases j) (auto simp: np_less_irrefl)
      qed
      ultimately show ?thesis by auto
    qed
  qed
qed

lemma set_non_null: "set (non_null cs) = {v. Val v \<in> set cs}"
  by (induction cs rule: non_null.induct) auto

lemma set_axis_values:
  "set (axis_values col tbl) = {v. \<exists>cid c. (cid, c) \<in> set tbl \<and> col c = Val v}"
  by (force simp: axis_values_def set_non_null)

lemma axis_values_sorted: "sorted (axis_values col tbl)" "distinct (axis_values col tbl)"
  by (simp_all add: axis_values_def)

lemma map_of_loc_unit_rows:
  "map_of (map (\<lambda>((u, cid), m). (cid, m)) (filter (\<lambda>((u, cid), m). u = unit_id) stats)) cid
     = map_of stats (unit_id, cid)"
  by (induction stats) auto

lemma loc_conditions_present:
  assumes "\<forall>cid\<in>set cids. map_of rows cid \<noteq> None"
  shows "loc_conditions rows cids = Inr (map (\<lambda>cid. (cid, the (map_of rows cid))) cids)"
  using assms by (induction cids) auto

lemma spike_mean_mean_present:
  assumes "cids \<noteq> []" and "\<forall>cid\<in>set cids. map_of stats (unit_id, cid) \<noteq> None"
  shows "spike_mean_mean mean stats unit_id cids
           = Inr (np_mean mean (map (\<lambda>cid. the (map_of stats (unit_id, cid))) cids))"
proof -
  define rows where
    "rows = map (\<lambda>((u, cid), m). (cid, m)) (filter (\<lambda>((u, cid), m). u = unit_id) stats)"
  have m: "map_of rows cid = map_of stats (unit_id, cid)" for cid
    unfolding rows_def by (rule map_of_loc_unit_rows)
  obtain cid where "cid \<in> set cids" using assms(1) by (cases cids) auto
  then have "map_of rows cid \<noteq> None" using assms(2) m by simp
  then have "rows \<noteq> []" by auto
  then have l: "loc_unit stats unit_id = Inr rows" by (simp add: loc_unit_def rows_def)
  have "loc_conditions rows cids = Inr (map (\<lambda>cid. (cid, the (map_of rows cid))) cids)"
    by (rule loc_conditions_present) (use assms(2) m in simp)
  then show ?thesis
    using l by (simp add: spike_mean_mean_def m comp_def)
qed

lemma spike_mean_mean_missing:
  assumes "map_of stats (unit_id, cid) = None"
  shows "spike_mean_mean mean stats unit_id (cid # cids) = Inl KeyError"
  using assms
  by (auto simp: spike_mean_mean_def loc_unit_def Let_def map_of_loc_unit_rows
      split: sum.splits)


lemma comprehension_map_Inr:
  assumes "\<forall>x\<in>set xs. f (h x) = Inr (g x)"
  shows "comprehension f (map h xs) = Inr (map g xs)"
  using assms by (induction xs) auto

lemma conditions_of_axis_value:
  assumes "v \<in> set (axis_values col tbl)"
  shows "map fst (filter (\<lambda>(cid, c). col c = Val v) tbl) \<noteq> []"
proof -
  obtain cid c where "(cid, c) \<in> set tbl" "col c = Val v"
    using assms by (auto simp: set_axis_values)
  then have "(cid, c) \<in> set (filter (\<lambda>(cid, c). col c = Val v) tbl)" by simp
  then show ?thesis by (auto simp: filter_empty_conv)
qed

lemma sorted_distinct_nth_less:
  assumes "sorted xs" and "distinct xs" and "j < length xs" and "k < length xs"
    and "xs ! j < xs ! k"
  shows "j < (k::nat)"
proof (rule ccontr)
  assume "\<not> j < k"
  then have "k \<le> j" by simp
  then have "xs ! k \<le> xs ! j" using assms(1,3) by (simp add: sorted_nth_mono)
  then show False using assms(5) by simp
qed

lemma get_pref_present:
  assumes "has_all_statistics col tbl stats unit_id" and "axis_values col tbl \<noteq> []"
    and "list_all (\<lambda>v. mean_of_means mean col tbl stats unit_id v \<noteq> NaN) (axis_values col tbl)"
  shows "\<exists>v. get_pref mean col (axis_values col tbl) tbl stats unit_id = Inr (Fin v)
           \<and> first_maximizer (mean_of_means mean col tbl stats unit_id) (axis_values col tbl) v"
proof -
  define axis where "axis = axis_values col tbl"
  define mom where "mom = mean_of_means mean col tbl stats unit_id"
  have present: "map_of stats (unit_id, cid) \<noteq> None" if "(cid, c) \<in> set tbl" "col c = Val v"
    for cid c v
    using assms(1) that by (auto simp: has_all_statistics_def list_all_iff)
  have each: "spike_mean_mean mean stats unit_id
                (map fst (filter (\<lambda>(cid, c). col c = Val v) tbl)) = Inr (mom v)"
    if "v \<in> set axis" for v
  proof -
    have "map fst (filter (\<lambda>(cid, c). col c = Val v) tbl) \<noteq> []"
      using conditions_of_axis_value [of v col tbl] that by (simp add: axis_def)
    moreover have "\<forall>cid\<in>set (map fst (filter (\<lambda>(cid, c). col c = Val v) tbl)).
                      map_of stats (unit_id, cid) \<noteq> None"
      using present by auto
    ultimately show ?thesis
      by (simp add: spike_mean_mean_present mom_def mean_of_means_def)
  qed
  have means: "comprehension (spike_mean_mean mean stats unit_id)
                 (similar_conditions col tbl axis) = Inr (map mom axis)"
    unfolding similar_conditions_def
    using comprehension_map_Inr [of axis "spike_mean_mean mean stats unit_id"
        "\<lambda>v. map fst (filter (\<lambda>(cid, c). col c = Val v) tbl)" mom] each
    by simp
  have ne: "map mom axis \<noteq> []" using assms(2) by (simp add: axis_def)
  have nn: "NaN \<notin> set (map mom axis)"
    using assms(3) by (auto simp: list_all_iff axis_def mom_def)
  obtain k where k: "nanargmax (map mom axis) = Some k" "k < length axis"
    "\<forall>j<length axis. \<not> np_less (mom (axis ! k)) (mom (axis ! j))"
    "\<forall>j<k. np_less (mom (axis ! j)) (mom (axis ! k))"
    using nanargmax_no_NaN [OF ne nn] by auto
  have res: "get_pref mean col axis tbl stats unit_id = Inr (Fin (axis ! k))"
    using means k(1) ne by (simp add: get_pref_def idxmax_def)
  have srt: "sorted axis" "distinct axis" by (simp_all add: axis_def axis_values_sorted)
  have "first_maximizer mom axis (axis ! k)"
    unfolding first_maximizer_def list_all_iff
  proof (intro conjI ballI impI)
    show "axis ! k \<in> set axis" using k(2) by simp
  next
    fix w assume "w \<in> set axis"
    then obtain j where j: "j < length axis" "w = axis ! j" by (auto simp: in_set_conv_nth)
    then show "\<not> np_less (mom (axis ! k)) (mom w)" using k(3) by simp
  next
    fix w assume "w \<in> set axis" and lt: "w < axis ! k"
    then obtain j where j: "j < length axis" "w = axis ! j" by (auto simp: in_set_conv_nth)
    then have "j < k" using sorted_distinct_nth_less [OF srt j(1) k(2)] lt by simp
    then show "np_less (mom w) (mom (axis ! k))" using k(4) j(2) by simp
  qed
  then show ?thesis using res by (auto simp: axis_def mom_def)
qed

lemma get_pref_missing:
  assumes "has_no_statistics col tbl stats unit_id"
  shows "get_pref mean col (axis_values col tbl) tbl stats unit_id
           = Inl (if axis_values col tbl = [] then ValueError else KeyError)"
proof (cases "axis_values col tbl")
  case Nil
  then show ?thesis by (simp add: get_pref_def similar_conditions_def idxmax_def)
next
  case (Cons v vs)
  then have "v \<in> set (axis_values col tbl)" by simp
  then have "map fst (filter (\<lambda>(cid, c). col c = Val v) tbl) \<noteq> []"
    by (rule conditions_of_axis_value)
  then obtain cid cids where c: "map fst (filter (\<lambda>(cid, c). col c = Val v) tbl) = cid # cids"
    by (cases "map fst (filter (\<lambda>(cid, c). col c = Val v) tbl)") auto
  then have "cid \<in> set (map fst (filter (\<lambda>(cid, c). col c = Val v) tbl))" by simp
  then obtain c' where "(cid, c') \<in> set tbl" "col c' = Val v" by auto
  then have "map_of stats (unit_id, cid) = None"
    using assms by (auto simp: has_no_statistics_def list_all_iff)
  then have "spike_mean_mean mean stats unit_id (cid # cids) = Inl KeyError"
    by (rule spike_mean_mean_missing)
  then show ?thesis using Cons c by (simp add: get_pref_def similar_conditions_def)
qed

lemma metrics_pref_sf_sg_propagates:
  assumes "cache_ok self" and "unit_id \<in> set unit_ids"
    and "get_pref mean SF (axis_values SF (stimulus_conditions self)) (stimulus_conditions self)
           (conditionwise_statistics self) unit_id = Inl e"
  shows "\<exists>e'. fst (metrics_pref_sf_sg mean self unit_ids) = Inl e'"
  using assms
proof (induction unit_ids arbitrary: self)
  case Nil
  then show ?case by simp
next
  case (Cons u us)
  obtain r self' where r: "get_pref_sf mean self u = (r, self')" by (cases "get_pref_sf mean self u")
  note c = get_pref_sf_cached [OF Cons.prems(1), of mean u, unfolded r, simplified]
  show ?case
  proof (cases r)
    case (Inl e')
    then show ?thesis using r by simp
  next
    case (Inr v)
    then have "u \<noteq> unit_id" using c(1) Cons.prems(3) by auto
    then have "unit_id \<in> set us" using Cons.prems(2) by simp
    then obtain e' where "fst (metrics_pref_sf_sg mean self' us) = Inl e'"
      using Cons.IH [of self'] c Cons.prems(3) by auto
    then show ?thesis
      using r Inr by (cases "metrics_pref_sf_sg mean self' us") (auto split: sum.splits)
  qed
qed

section \<open>Properties of the preferred-value search and of the selectivity index\<close>

lemma StaticGratings_tables:
  "stimulus_conditions (StaticGratings tbl stats) = tbl"
  "conditionwise_statistics (StaticGratings tbl stats) = stats"
  by (simp_all add: StaticGratings_def)

lemma get_pref_fresh:
  "fst (get_pref_sf mean (StaticGratings tbl stats) unit_id)
     = get_pref mean SF (axis_values SF tbl) tbl stats unit_id"
  "fst (get_pref_ori mean (StaticGratings tbl stats) unit_id)
     = get_pref mean Ori (axis_values Ori tbl) tbl stats unit_id"
  "fst (get_pref_phase mean (StaticGratings tbl stats) unit_id)
     = get_pref mean Phase (axis_values Phase tbl) tbl stats unit_id"
  by (simp_all add: get_pref_sf_cached [OF StaticGratings_cache_ok]
      get_pref_ori_cached [OF StaticGratings_cache_ok]
      get_pref_phase_cached [OF StaticGratings_cache_ok] StaticGratings_tables)

text \<open>
  C3 (as amended).  On a freshly constructed object, for a unit that has a recorded
  statistic for every condition carrying a value in the column, a non-empty axis, and
  computed mean-of-means responses none of which is NaN, each of the three searches
  returns an axis value that maximizes the mean-of-means response as computed in
  float64, the least such value when several do.
\<close>

theorem get_pref_first_maximizer:
  "(has_all_statistics SF tbl stats unit_id \<and> axis_values SF tbl \<noteq> []
      \<and> list_all (\<lambda>v. mean_of_means mean SF tbl stats unit_id v \<noteq> NaN) (axis_values SF tbl)
    \<longrightarrow>
      (\<exists>v. fst (get_pref_sf mean (StaticGratings tbl stats) unit_id) = Inr (Fin v)
         \<and> first_maximizer (mean_of_means mean SF tbl stats unit_id) (axis_values SF tbl) v))
   \<and> (has_all_statistics Ori tbl stats unit_id \<and> axis_values Ori tbl \<noteq> []
      \<and> list_all (\<lambda>v. mean_of_means mean Ori tbl stats unit_id v \<noteq> NaN) (axis_values Ori tbl)
    \<longrightarrow>
      (\<exists>v. fst (get_pref_ori mean (StaticGratings tbl stats) unit_id) = Inr (Fin v)
         \<and> first_maximizer (mean_of_means mean Ori tbl stats unit_id) (axis_values Ori tbl) v))
   \<and> (has_all_statistics Phase tbl stats unit_id \<and> axis_values Phase tbl \<noteq> []
      \<and> list_all (\<lambda>v. mean_of_means mean Phase tbl stats unit_id v \<noteq> NaN)
          (axis_values Phase tbl)
    \<longrightarrow>
      (\<exists>v. fst (get_pref_phase mean (StaticGratings tbl stats) unit_id) = Inr (Fin v)
         \<and> first_maximizer (mean_of_means mean Phase tbl stats unit_id)
             (axis_values Phase tbl) v))"
  using get_pref_present [of SF tbl stats unit_id mean]
    get_pref_present [of Ori tbl stats unit_id mean]
    get_pref_present [of Phase tbl stats unit_id mean]
  by (simp add: get_pref_fresh)

lemma example_axes:
  "axis_values SF example_conditions = [0.02, 0.04]"
  "axis_values Ori example_conditions = [0, 90]"
  "axis_values Phase example_conditions = [0, 0.25]"
  by (simp_all add: axis_values_def example_conditions_def)

lemma example_unit_7:
  "has_all_statistics SF example_conditions example_statistics 7"
  "has_all_statistics Ori example_conditions example_statistics 7"
  "has_all_statistics Phase example_conditions example_statistics 7"
  "list_all (\<lambda>v. mean_of_means exact_mean SF example_conditions example_statistics 7 v \<noteq> NaN)
     (axis_values SF example_conditions)"
  "list_all (\<lambda>v. mean_of_means exact_mean Ori example_conditions example_statistics 7 v \<noteq> NaN)
     (axis_values Ori example_conditions)"
  "list_all (\<lambda>v. mean_of_means exact_mean Phase example_conditions example_statistics 7 v \<noteq> NaN)
     (axis_values Phase example_conditions)"
  by (simp_all add: has_all_statistics_def mean_of_means_def np_mean_def exact_mean_def
      example_axes)
    (simp_all add: example_conditions_def example_statistics_def)

theorem get_pref_first_maximizer_witness:
  "(has_all_statistics SF example_conditions example_statistics 7
      \<and> axis_values SF example_conditions \<noteq> []
      \<and> list_all (\<lambda>v. mean_of_means exact_mean SF example_conditions example_statistics 7 v
                     \<noteq> NaN) (axis_values SF example_conditions)
      \<and> (\<exists>v. fst (get_pref_sf exact_mean (StaticGratings example_conditions example_statistics) 7)
                = Inr (Fin v)
            \<and> first_maximizer
                (mean_of_means exact_mean SF example_conditions example_statistics 7)
                (axis_values SF example_conditions) v))
   \<and> (has_all_statistics Ori example_conditions example_statistics 7
      \<and> axis_values Ori example_conditions \<noteq> []
      \<and> list_all (\<lambda>v. mean_of_means exact_mean Ori example_conditions example_statistics 7 v
                     \<noteq> NaN) (axis_values Ori example_conditions)
      \<and> (\<exists>v. fst (get_pref_ori exact_mean (StaticGratings example_conditions example_statistics) 7)
                = Inr (Fin v)
            \<and> first_maximizer
                (mean_of_means exact_mean Ori example_conditions example_statistics 7)
                (axis_values Ori example_conditions) v))
   \<and> (has_all_statistics Phase example_conditions example_statistics 7
      \<and> axis_values Phase example_conditions \<noteq> []
      \<and> list_all (\<lambda>v. mean_of_means exact_mean Phase example_conditions example_statistics 7 v
                     \<noteq> NaN) (axis_values Phase example_conditions)
      \<and> (\<exists>v. fst (get_pref_phase exact_mean
                     (StaticGratings example_conditions example_statistics) 7)
                = Inr (Fin v)
            \<and> first_maximizer
                (mean_of_means exact_mean Phase example_conditions example_statistics 7)
                (axis_values Phase example_conditions) v))"
proof -
  have a: "axis_values SF example_conditions \<noteq> []" "axis_values Ori example_conditions \<noteq> []"
    "axis_values Phase example_conditions \<noteq> []"
    by (simp_all add: example_axes)
  show ?thesis
    using get_pref_first_maximizer [where tbl = example_conditions
        and stats = example_statistics and unit_id = 7 and mean = exact_mean]
      example_unit_7 a
    by blast
qed

lemma float64_mean_example_tenths:
  "float64_mean_example [7205759403792794 / 2 ^ 56] = Fin (7205759403792794 / 2 ^ 56)"
  "float64_mean_example
     [7205759403792794 / 2 ^ 56, 7205759403792794 / 2 ^ 56, 7205759403792794 / 2 ^ 56]
     = Fin (7205759403792795 / 2 ^ 56)"
  by (simp_all add: float64_mean_example_def exact_mean_def numeral_eq_Suc)

lemma tie_axis: "axis_values SF tie_conditions = [0.02, 0.04]"
  by (simp add: axis_values_def tie_conditions_def)

text \<open>
  The claim as stated fails in two ways.  Unit 9 has a recorded statistic for condition
  0, which is on the spatial-frequency axis, but none for condition 1, and the search
  raises \<open>KeyError\<close> at the lookup for the axis value 0.04.  Unit 3 responds with 0.1 to
  one condition at 0.02 and to three conditions at 0.04: the exact mean-of-means
  responses are equal, so the first maximizer in ascending order is 0.02, but the
  float64 mean of the three is \<open>0.10000000000000002\<close> and the search returns 0.04.
\<close>

theorem get_pref_partial_statistics_counterexample:
  "map_of example_statistics (9, 0) = Some 2
   \<and> map_of example_conditions 0 = Some \<lparr>Ori = Val 0, SF = Val 0.02, Phase = Val 0\<rparr>
   \<and> fst (get_pref_sf exact_mean (StaticGratings example_conditions example_statistics) 9)
       = Inl KeyError
   \<and> has_all_statistics SF tie_conditions tie_statistics 3
   \<and> mean_of_means exact_mean SF tie_conditions tie_statistics 3 0.02
       = mean_of_means exact_mean SF tie_conditions tie_statistics 3 0.04
   \<and> fst (get_pref_sf float64_mean_example (StaticGratings tie_conditions tie_statistics) 3)
       = Inr (Fin 0.04)"
proof -
  have "get_pref exact_mean SF [0.02, 0.04] example_conditions example_statistics 9
          = Inl KeyError"
    by (simp add: get_pref_def similar_conditions_def spike_mean_mean_def loc_unit_def
        example_conditions_def example_statistics_def np_mean_def)
  then have a: "fst (get_pref_sf exact_mean
                  (StaticGratings example_conditions example_statistics) 9) = Inl KeyError"
    by (simp only: get_pref_fresh example_axes)
  have b: "map_of example_statistics (9, 0) = Some 2"
    by (simp add: example_statistics_def)
  have c: "map_of example_conditions 0
             = Some \<lparr>Ori = Val 0, SF = Val 0.02, Phase = Val 0\<rparr>"
    by (simp add: example_conditions_def)
  have d: "has_all_statistics SF tie_conditions tie_statistics 3"
    by (simp add: has_all_statistics_def tie_conditions_def tie_statistics_def
        del: not_None_eq)
  have e: "mean_of_means exact_mean SF tie_conditions tie_statistics 3 0.02
             = mean_of_means exact_mean SF tie_conditions tie_statistics 3 0.04"
    by (simp add: mean_of_means_def np_mean_def exact_mean_def tie_conditions_def
        tie_statistics_def)
  have means: "comprehension (spike_mean_mean float64_mean_example tie_statistics 3)
                 (similar_conditions SF tie_conditions [0.02, 0.04])
               = Inr [Fin (7205759403792794 / 2 ^ 56), Fin (7205759403792795 / 2 ^ 56)]"
    by (simp add: similar_conditions_def spike_mean_mean_def loc_unit_def np_mean_def
        tie_conditions_def tie_statistics_def float64_mean_example_tenths
        del: power_numeral)
  have "get_pref float64_mean_example SF [0.02, 0.04] tie_conditions tie_statistics 3
          = Inr (Fin 0.04)"
    unfolding get_pref_def means by (simp add: idxmax_def)
  then have f: "fst (get_pref_sf float64_mean_example
                  (StaticGratings tie_conditions tie_statistics) 3) = Inr (Fin 0.04)"
    by (simp only: get_pref_fresh tie_axis)
  show ?thesis using a b c d e f by (intro conjI)
qed

lemma metrics_pref_sf_sg_pure:
  assumes "cache_ok self"
  shows "fst (metrics_pref_sf_sg mean self unit_ids)
           = comprehension (get_pref mean SF (axis_values SF (stimulus_conditions self))
               (stimulus_conditions self) (conditionwise_statistics self)) unit_ids"
  using assms
proof (induction unit_ids arbitrary: self)
  case Nil
  then show ?case by simp
next
  case (Cons u us)
  obtain r self' where r: "get_pref_sf mean self u = (r, self')" by (cases "get_pref_sf mean self u")
  note c = get_pref_sf_cached [OF Cons.prems, of mean u, unfolded r, simplified]
  have "fst (metrics_pref_sf_sg mean self' us)
          = comprehension (get_pref mean SF (axis_values SF (stimulus_conditions self))
              (stimulus_conditions self) (conditionwise_statistics self)) us"
    using Cons.IH [of self'] c by simp
  then show ?case
    using r c(1) by (cases "metrics_pref_sf_sg mean self' us") (auto split: sum.splits)
qed

text \<open>
  C6 (as amended).  For a unit without a recorded statistic for any condition on the
  axis, each search raises \<open>KeyError\<close> (\<open>ValueError\<close> when the axis is empty), and the
  first column of \<open>metrics\<close> raises as soon as such a unit is among the requested ones.
\<close>

theorem get_pref_without_statistics_raises:
  "(has_no_statistics SF tbl stats unit_id \<longrightarrow>
      fst (get_pref_sf mean (StaticGratings tbl stats) unit_id)
        = Inl (if axis_values SF tbl = [] then ValueError else KeyError)
      \<and> (unit_id \<in> set unit_ids \<longrightarrow>
           (\<exists>e. fst (metrics_pref_sf_sg mean (StaticGratings tbl stats) unit_ids) = Inl e)))
   \<and> (has_no_statistics Ori tbl stats unit_id \<longrightarrow>
      fst (get_pref_ori mean (StaticGratings tbl stats) unit_id)
        = Inl (if axis_values Ori tbl = [] then ValueError else KeyError))
   \<and> (has_no_statistics Phase tbl stats unit_id \<longrightarrow>
      fst (get_pref_phase mean (StaticGratings tbl stats) unit_id)
        = Inl (if axis_values Phase tbl = [] then ValueError else KeyError))"
proof (intro conjI impI)
  assume h: "has_no_statistics SF tbl stats unit_id"
  show "fst (get_pref_sf mean (StaticGratings tbl stats) unit_id)
          = Inl (if axis_values SF tbl = [] then ValueError else KeyError)"
    using get_pref_missing [OF h] by (simp only: get_pref_fresh)
  assume "unit_id \<in> set unit_ids"
  then show "\<exists>e. fst (metrics_pref_sf_sg mean (StaticGratings tbl stats) unit_ids) = Inl e"
    using metrics_pref_sf_sg_propagates [OF StaticGratings_cache_ok, of unit_id unit_ids mean
        tbl stats] get_pref_missing [OF h]
    by (simp only: StaticGratings_tables)
next
  assume h: "has_no_statistics Ori tbl stats unit_id"
  show "fst (get_pref_ori mean (StaticGratings tbl stats) unit_id)
          = Inl (if axis_values Ori tbl = [] then ValueError else KeyError)"
    using get_pref_missing [OF h] by (simp only: get_pref_fresh)
next
  assume h: "has_no_statistics Phase tbl stats unit_id"
  show "fst (get_pref_phase mean (StaticGratings tbl stats) unit_id)
          = Inl (if axis_values Phase tbl = [] then ValueError else KeyError)"
    using get_pref_missing [OF h] by (simp only: get_pref_fresh)
qed

lemma example_unit_8:
  "has_no_statistics SF example_conditions example_statistics 8"
  "has_no_statistics Ori example_conditions example_statistics 8"
  "has_no_statistics Phase example_conditions example_statistics 8"
  by (simp_all add: has_no_statistics_def example_conditions_def example_statistics_def)

theorem get_pref_without_statistics_witness:
  "(has_no_statistics SF example_conditions example_statistics 8
      \<and> fst (get_pref_sf exact_mean (StaticGratings example_conditions example_statistics) 8)
          = Inl (if axis_values SF example_conditions = [] then ValueError else KeyError)
      \<and> 8 \<in> set [7, 8::nat]
      \<and> (\<exists>e. fst (metrics_pref_sf_sg exact_mean (StaticGratings example_conditions example_statistics)
                 [7, 8]) = Inl e))
   \<and> (has_no_statistics Ori example_conditions example_statistics 8
      \<and> fst (get_pref_ori exact_mean (StaticGratings example_conditions example_statistics) 8)
          = Inl (if axis_values Ori example_conditions = [] then ValueError else KeyError))
   \<and> (has_no_statistics Phase example_conditions example_statistics 8
      \<and> fst (get_pref_phase exact_mean (StaticGratings example_conditions example_statistics) 8)
          = Inl (if axis_values Phase example_conditions = [] then ValueError else KeyError))"
proof -
  have m: "8 \<in> set [7, 8::nat]" by simp
  show ?thesis
    using get_pref_without_statistics_raises [where tbl = example_conditions
        and stats = example_statistics and unit_id = 8 and unit_ids = "[7, 8]"
        and mean = exact_mean] example_unit_8 m
    by blast
qed

text \<open>
  The claim as stated fails on the kind of the failure: for unit 8 the search raises the
  \<open>KeyError\<close> of the pandas lookup, not a \<open>MissingDataError\<close>, and the column of
  \<open>metrics\<close> for the units 7 and 8 raises as a whole, the row of unit 7 included.
\<close>

theorem get_pref_without_statistics_counterexample:
  "has_no_statistics SF example_conditions example_statistics 8
   \<and> fst (get_pref_sf exact_mean (StaticGratings example_conditions example_statistics) 8) = Inl KeyError
   \<and> fst (get_pref_sf exact_mean (StaticGratings example_conditions example_statistics) 8)
       \<noteq> Inl MissingDataError
   \<and> fst (metrics_pref_sf_sg exact_mean (StaticGratings example_conditions example_statistics) [7, 8])
       = Inl KeyError"
proof -
  have k: "get_pref exact_mean SF (axis_values SF example_conditions) example_conditions
             example_statistics 8 = Inl KeyError"
    using get_pref_missing [OF example_unit_8(1)] by (simp add: example_axes)
  obtain v where v: "get_pref exact_mean SF (axis_values SF example_conditions) example_conditions
             example_statistics 7 = Inr (Fin v)"
    using get_pref_present [OF example_unit_7(1) _ example_unit_7(4)]
    by (auto simp: example_axes)
  have "fst (metrics_pref_sf_sg exact_mean (StaticGratings example_conditions example_statistics) [7, 8])
          = comprehension (get_pref exact_mean SF (axis_values SF example_conditions) example_conditions
              example_statistics) [7, 8]"
    by (simp only: metrics_pref_sf_sg_pure [OF StaticGratings_cache_ok] StaticGratings_tables)
  also have "\<dots> = Inl KeyError" using k v by simp
  finally have "fst (metrics_pref_sf_sg exact_mean (StaticGratings example_conditions example_statistics)
                  [7, 8]) = Inl KeyError" .
  moreover have "fst (get_pref_sf exact_mean (StaticGratings example_conditions example_statistics) 8)
                   = Inl KeyError"
    using k by (simp only: get_pref_fresh)
  ultimately show ?thesis using example_unit_8(1) by simp
qed

lemma map_of_in_fst_set: "cid \<in> fst ` set tbl \<Longrightarrow> map_of tbl cid \<noteq> None"
  by (simp add: map_of_eq_None_iff)

lemma sort_values_Ori_numeric:
  assumes "df \<noteq> []" and "\<forall>x\<in>set df. fst x \<noteq> Null"
  shows "sort_values_Ori df
           = Inr (sort_key (\<lambda>(c, m). case c of Val v \<Rightarrow> v | Null \<Rightarrow> 0) df)"
proof -
  obtain x where x: "x \<in> set df" using assms(1) by (cases df) auto
  have "\<not> list_all (\<lambda>(c, m). c = Null) df"
  proof
    assume "list_all (\<lambda>(c, m). c = Null) df"
    then have "case x of (c, m) \<Rightarrow> c = Null" using x unfolding list_all_iff by blast
    then show False using assms(2) x by (cases x) auto
  qed
  moreover have "\<not> list_ex (\<lambda>(c, m). c = Null) df"
    using assms(2) by (auto simp: list_ex_iff split_def)
  ultimately show ?thesis by (simp add: sort_values_Ori_def)
qed

lemma selected_tuning_zero:
  assumes "selected_conditions (stimulus_conditions self) pref_sf pref_phase \<noteq> []"
    and "list_all (\<lambda>cid. map_of (conditionwise_statistics self) (unit_id, cid) = Some 0)
           (selected_conditions (stimulus_conditions self) pref_sf pref_phase)"
    and "numeric_orientations (stimulus_conditions self)
           (selected_conditions (stimulus_conditions self) pref_sf pref_phase)"
  shows "\<exists>tuning. selected_tuning self unit_id pref_sf pref_phase = Inr tuning
           \<and> list_all (\<lambda>r. r = 0) tuning"
proof -
  define tbl where "tbl = stimulus_conditions self"
  define stats where "stats = conditionwise_statistics self"
  define sel where "sel = selected_conditions tbl pref_sf pref_phase"
  define rows where
    "rows = map (\<lambda>((u, cid), m). (cid, m)) (filter (\<lambda>((u, cid), m). u = unit_id) stats)"
  have zero: "map_of stats (unit_id, cid) = Some 0" if "cid \<in> set sel" for cid
    using assms(2) that by (simp add: list_all_iff sel_def tbl_def stats_def)
  have m: "map_of rows cid = map_of stats (unit_id, cid)" for cid
    unfolding rows_def by (rule map_of_loc_unit_rows)
  obtain cid0 where "cid0 \<in> set sel" using assms(1) by (cases sel) (auto simp: sel_def tbl_def)
  then have "map_of rows cid0 \<noteq> None" using zero m by simp
  then have "rows \<noteq> []" by auto
  then have l: "loc_unit stats unit_id = Inr rows" by (simp add: loc_unit_def rows_def)
  have "loc_conditions rows sel = Inr (map (\<lambda>cid. (cid, the (map_of rows cid))) sel)"
    by (rule loc_conditions_present) (use zero m in simp)
  also have "map (\<lambda>cid. (cid, the (map_of rows cid))) sel = map (\<lambda>cid. (cid, 0)) sel"
    using zero m by simp
  finally have lc: "loc_conditions rows sel = Inr (map (\<lambda>cid. (cid, 0)) sel)" .
  have ori: "\<exists>c. map_of tbl cid = Some c \<and> Ori c \<noteq> Null" if "cid \<in> set sel" for cid
    using assms(3) that
    by (auto simp: numeric_orientations_def list_all_iff sel_def tbl_def split: option.splits)
  have "assign_Ori tbl (cid, 0) = Inr (Ori (the (map_of tbl cid)), 0)"
    if "cid \<in> set sel" for cid
    using ori [OF that] by (auto simp: assign_Ori_def)
  then have "\<forall>cid\<in>set sel. assign_Ori tbl ((\<lambda>cid. (cid, 0)) cid)
          = Inr ((\<lambda>cid. (Ori (the (map_of tbl cid)), 0)) cid)"
    by simp
  then have a: "comprehension (assign_Ori tbl) (map (\<lambda>cid. (cid, 0)) sel)
                  = Inr (map (\<lambda>cid. (Ori (the (map_of tbl cid)), 0)) sel)"
    by (rule comprehension_map_Inr)
  define df_ori :: "(cell \<times> real) list" where
    "df_ori = map (\<lambda>cid. (Ori (the (map_of tbl cid)), 0)) sel"
  have ne: "df_ori \<noteq> []" using assms(1) by (simp add: df_ori_def sel_def tbl_def)
  have nn: "\<forall>x\<in>set df_ori. fst x \<noteq> Null" using ori by (force simp: df_ori_def)
  have z: "\<forall>x\<in>set df_ori. snd x = 0" by (auto simp: df_ori_def)
  have s: "sort_values_Ori df_ori
             = Inr (sort_key (\<lambda>(c, m). case c of Val v \<Rightarrow> v | Null \<Rightarrow> 0) df_ori)"
    using ne nn by (rule sort_values_Ori_numeric)
  have "selected_tuning self unit_id pref_sf pref_phase
          = Inr (map (\<lambda>(c, m). complex_of_real m)
                  (sort_key (\<lambda>(c, m). case c of Val v \<Rightarrow> v | Null \<Rightarrow> 0) df_ori))"
    using l lc a s
    by (simp add: selected_tuning_def tbl_def [symmetric] stats_def [symmetric]
        sel_def [symmetric] df_ori_def [symmetric])
  moreover have "list_all (\<lambda>r. r = 0) (map (\<lambda>(c, m). complex_of_real m)
                  (sort_key (\<lambda>(c, m). case c of Val v \<Rightarrow> v | Null \<Rightarrow> 0) df_ori))"
    using z by (auto simp: list_all_iff split_def)
  ultimately show ?thesis by blast
qed

text \<open>
  C4.  When the conditions selected by the preferred spatial frequency and phase (at
  least one, each with a numeric orientation) all have a recorded response of exactly
  zero for the unit, \<open>_get_osi\<close> ends in the undefined-index signal of \<open>osi\<close>.
\<close>

theorem get_osi_all_zero_undefined:
  assumes "selected_conditions tbl pref_sf pref_phase \<noteq> []"
    and "list_all (\<lambda>cid. map_of stats (unit_id, cid) = Some 0)
           (selected_conditions tbl pref_sf pref_phase)"
    and "numeric_orientations tbl (selected_conditions tbl pref_sf pref_phase)"
  shows "fst (get_osi (StaticGratings tbl stats) unit_id pref_sf pref_phase)
           = Inl UndefinedIndexError"
proof -
  define self' where "self' = snd (orivals (StaticGratings tbl stats))"
  have o: "orivals (StaticGratings tbl stats) = (Some (axis_values Ori tbl), self')"
    using orivals_cached(1) [OF StaticGratings_cache_ok, of tbl stats]
    by (simp add: self'_def StaticGratings_tables prod_eq_iff)
  have t: "stimulus_conditions self' = tbl" "conditionwise_statistics self' = stats"
    using orivals_cached(2,3) [OF StaticGratings_cache_ok, of tbl stats]
    by (simp_all add: self'_def StaticGratings_tables)
  obtain tuning where tu: "selected_tuning self' unit_id pref_sf pref_phase = Inr tuning"
    "list_all (\<lambda>r. r = 0) tuning"
    using selected_tuning_zero [of self' pref_sf pref_phase unit_id] assms by (auto simp: t)
  show ?thesis using o tu by (simp add: get_osi_def osi_def)
qed

theorem get_osi_all_zero_witness:
  "selected_conditions example_conditions (Fin 0.02) (Fin 0) \<noteq> []
   \<and> list_all (\<lambda>cid. map_of example_statistics (5, cid) = Some 0)
       (selected_conditions example_conditions (Fin 0.02) (Fin 0))
   \<and> numeric_orientations example_conditions
       (selected_conditions example_conditions (Fin 0.02) (Fin 0))
   \<and> fst (get_osi (StaticGratings example_conditions example_statistics) 5 (Fin 0.02) (Fin 0))
       = Inl UndefinedIndexError"
proof -
  have s: "selected_conditions example_conditions (Fin 0.02) (Fin 0) = [0]"
    by (simp add: selected_conditions_def example_conditions_def)
  have a: "selected_conditions example_conditions (Fin 0.02) (Fin 0) \<noteq> []"
    unfolding s by simp
  have b: "list_all (\<lambda>cid. map_of example_statistics (5, cid) = Some 0)
       (selected_conditions example_conditions (Fin 0.02) (Fin 0))"
    unfolding s by (simp add: example_statistics_def)
  have c: "numeric_orientations example_conditions
       (selected_conditions example_conditions (Fin 0.02) (Fin 0))"
    unfolding s by (simp add: numeric_orientations_def example_conditions_def)
  show ?thesis using get_osi_all_zero_undefined [OF a b c] a b c by (intro conjI)
qed

end

